theory Spec2Isabelle
  imports Complex_Main "HOL-Library.Sublist" "HOL-Library.AList"
begin

section \<open>Python string primitives used by \<^verbatim>\<open>cobra/mit/session.py\<close>\<close>

text \<open>
  Python strings are modelled as \<^typ>\<open>string\<close>.  \<^verbatim>\<open>s.endswith(t)\<close> is the suffix test,
  \<^verbatim>\<open>s[:-1]\<close> is \<^const>\<open>butlast\<close>, \<^verbatim>\<open>t in s\<close> is the substring test, and
  \<^verbatim>\<open>s.replace(old, new)\<close> replaces the non-overlapping occurrences of \<^verbatim>\<open>old\<close>, scanning
  from the left; with an empty \<^verbatim>\<open>old\<close> Python puts \<^verbatim>\<open>new\<close> before every character and
  at the end.
\<close>

definition endswith :: "string \<Rightarrow> string \<Rightarrow> bool" where
  "endswith s t = suffix t s"

fun str_contains :: "string \<Rightarrow> string \<Rightarrow> bool" where
  "str_contains t [] = (t = [])"
| "str_contains t (c # cs) = (prefix t (c # cs) \<or> str_contains t cs)"

function str_replace :: "string \<Rightarrow> string \<Rightarrow> string \<Rightarrow> string" where
  "str_replace old new s =
     (if old = [] then concat (map (\<lambda>c. new @ [c]) s) @ new
      else if s = [] then []
      else if prefix old s then new @ str_replace old new (drop (length old) s)
      else hd s # str_replace old new (tl s))"
  by pat_completeness auto
termination
  by (relation "measure (\<lambda>(old, new, s). length s)") auto

declare str_replace.simps [simp del]

subsection \<open>URI normalisation in \<^verbatim>\<open>CertSession._generateSignature\<close> (lines 434--436)\<close>

text \<open>
  \<^verbatim>\<open>
  if uri.endswith('?'):
      uri = uri[:-1]
  uri = uri.replace('//', '/')
  \<close>
\<close>

definition normalizedURI :: "string \<Rightarrow> string" where
  "normalizedURI uri =
     (let uri1 = (if endswith uri ''?'' then butlast uri else uri)
      in str_replace ''//'' ''/'' uri1)"

section \<open>Python values and exceptions\<close>

text \<open>
  The values a decoded JSON body is made of.  A JSON object decodes to a \<^verbatim>\<open>dict\<close> with
  string keys, kept here as an association list read with \<^const>\<open>map_of\<close>; JSON
  \<^verbatim>\<open>null\<close> decodes to \<^verbatim>\<open>None\<close>.  A float is a rational, an infinity or a NaN (the
  decoder accepts \<^verbatim>\<open>Infinity\<close> and \<^verbatim>\<open>NaN\<close>).  Characters are code points below 256.
\<close>

datatype pyfloat = Finite rat | Infinity bool | NaN

datatype pyval =
    PNone
  | PBool bool
  | PInt int
  | PFloat pyfloat
  | PStr string
  | PList "pyval list"
  | PDict "(string \<times> pyval) list"

text \<open>
  The exceptions that the module raises itself (\<^verbatim>\<open>NotImplementedError\<close>, \<^verbatim>\<open>LoginError\<close>,
  \<^verbatim>\<open>subprocess.CalledProcessError\<close>) and the ones the interpreter and the libraries
  raise on its behalf.
\<close>

datatype exn =
    NotImplementedError string
  | LoginError pyval pyval
  | CalledProcessError int string string
  | ValueError
  | TypeError
  | KeyError pyval
  | IndexError
  | AttributeError
  | OverflowError
  | FileNotFoundError string
  | CryptoError

subsection \<open>Truth value, membership, subscription\<close>

fun truthy :: "pyval \<Rightarrow> bool" where
  "truthy PNone = False"
| "truthy (PBool b) = b"
| "truthy (PInt i) = (i \<noteq> 0)"
| "truthy (PFloat (Finite r)) = (r \<noteq> 0)"
| "truthy (PFloat f) = True"
| "truthy (PStr s) = (s \<noteq> [])"
| "truthy (PList xs) = (xs \<noteq> [])"
| "truthy (PDict d) = (d \<noteq> [])"

text \<open>\<^verbatim>\<open>d.get(key, None)\<close>: only a \<^verbatim>\<open>dict\<close> has the method.\<close>

fun dict_get :: "pyval \<Rightarrow> string \<Rightarrow> exn + pyval" where
  "dict_get (PDict d) k = (case map_of d k of None \<Rightarrow> Inr PNone | Some v \<Rightarrow> Inr v)"
| "dict_get v k = Inl AttributeError"

text \<open>\<^verbatim>\<open>v[0]\<close>.  The keys of a decoded object are strings, so \<^verbatim>\<open>0\<close> is never one.\<close>

fun py_index0 :: "pyval \<Rightarrow> exn + pyval" where
  "py_index0 (PList []) = Inl IndexError"
| "py_index0 (PList (x # xs)) = Inr x"
| "py_index0 (PStr []) = Inl IndexError"
| "py_index0 (PStr (c # cs)) = Inr (PStr [c])"
| "py_index0 (PDict d) = Inl (KeyError (PInt 0))"
| "py_index0 v = Inl TypeError"

text \<open>
  \<^verbatim>\<open>key in v\<close> for a string \<^verbatim>\<open>key\<close>: a key of a \<^verbatim>\<open>dict\<close>, an element of a list, a
  substring of a string; the other values are not iterable.
\<close>

fun py_in :: "string \<Rightarrow> pyval \<Rightarrow> exn + bool" where
  "py_in k (PDict d) = Inr (k \<in> set (map fst d))"
| "py_in k (PList xs) = Inr (PStr k \<in> set xs)"
| "py_in k (PStr s) = Inr (str_contains k s)"
| "py_in k v = Inl TypeError"

text \<open>\<^verbatim>\<open>v[key]\<close> for a string \<^verbatim>\<open>key\<close>: a lookup in a \<^verbatim>\<open>dict\<close>, a type error elsewhere.\<close>

fun py_getitem :: "pyval \<Rightarrow> string \<Rightarrow> exn + pyval" where
  "py_getitem (PDict d) k = (case map_of d k of None \<Rightarrow> Inl (KeyError (PStr k)) | Some v \<Rightarrow> Inr v)"
| "py_getitem v k = Inl TypeError"

text \<open>\<^verbatim>\<open>v[k1][k2]\<close> and \<^verbatim>\<open>v[k1][k2][k3]\<close>, evaluated from the left.\<close>

definition py_getitem2 :: "pyval \<Rightarrow> string \<Rightarrow> string \<Rightarrow> exn + pyval" where
  "py_getitem2 v k1 k2 =
     (case py_getitem v k1 of Inl e \<Rightarrow> Inl e | Inr v1 \<Rightarrow> py_getitem v1 k2)"

definition py_getitem3 :: "pyval \<Rightarrow> string \<Rightarrow> string \<Rightarrow> string \<Rightarrow> exn + pyval" where
  "py_getitem3 v k1 k2 k3 =
     (case py_getitem2 v k1 k2 of Inl e \<Rightarrow> Inl e | Inr v2 \<Rightarrow> py_getitem v2 k3)"

subsection \<open>The builtin \<^verbatim>\<open>int\<close> and \<^verbatim>\<open>math.trunc\<close>\<close>

text \<open>
  \<^verbatim>\<open>int(s)\<close> on a string strips white space at both ends, reads an optional sign and then
  decimal digits, which single underscores may separate.  (The interpreter's optional cap
  on the number of digits is left out.)
\<close>

definition py_isspace :: "char \<Rightarrow> bool" where
  "py_isspace c =
     (let n = (of_char c :: nat)
      in (9 \<le> n \<and> n \<le> 13) \<or> (28 \<le> n \<and> n \<le> 32) \<or> n = 133 \<or> n = 160)"

definition str_strip :: "string \<Rightarrow> string" where
  "str_strip s = rev (dropWhile py_isspace (rev (dropWhile py_isspace s)))"

definition is_digit :: "char \<Rightarrow> bool" where
  "is_digit c = (let n = (of_char c :: nat) in 48 \<le> n \<and> n \<le> 57)"

definition digit_val :: "char \<Rightarrow> nat" where
  "digit_val c = (of_char c :: nat) - 48"

fun parse_digits :: "string \<Rightarrow> nat \<Rightarrow> nat option" where
  "parse_digits [] acc = Some acc"
| "parse_digits (c # cs) acc =
     (if is_digit c then parse_digits cs (10 * acc + digit_val c)
      else if c = CHR ''_'' \<and> cs \<noteq> [] \<and> is_digit (hd cs) then parse_digits cs acc
      else None)"

definition parse_unsigned :: "string \<Rightarrow> nat option" where
  "parse_unsigned s =
     (case s of [] \<Rightarrow> None | c # cs \<Rightarrow> if is_digit c then parse_digits s 0 else None)"

definition int_of_str :: "string \<Rightarrow> exn + int" where
  "int_of_str s =
     (let t = str_strip s;
          neg = prefix ''-'' t;
          body = (if prefix ''-'' t \<or> prefix ''+'' t then tl t else t)
      in case parse_unsigned body of
           None \<Rightarrow> Inl ValueError
         | Some n \<Rightarrow> Inr (if neg then - int n else int n))"

text \<open>\<^verbatim>\<open>math.trunc\<close> rounds towards zero.\<close>

definition math_trunc :: "rat \<Rightarrow> int" where
  "math_trunc x = (if 0 \<le> x then \<lfloor>x\<rfloor> else \<lceil>x\<rceil>)"

fun py_int :: "pyval \<Rightarrow> exn + int" where
  "py_int PNone = Inl TypeError"
| "py_int (PBool b) = Inr (if b then 1 else 0)"
| "py_int (PInt i) = Inr i"
| "py_int (PFloat (Finite r)) = Inr (math_trunc r)"
| "py_int (PFloat (Infinity b)) = Inl OverflowError"
| "py_int (PFloat NaN) = Inl ValueError"
| "py_int (PStr s) = int_of_str s"
| "py_int (PList xs) = Inl TypeError"
| "py_int (PDict d) = Inl TypeError"

text \<open>
  \<^verbatim>\<open>'%s' % v\<close> for a value that is not a tuple: \<^verbatim>\<open>None\<close> prints as the text
  \<^verbatim>\<open>None\<close> and a string as itself; for the numbers, the booleans and the containers the
  interpreter's rendering is the parameter \<open>repr\<close>.
\<close>

fun py_str :: "(pyval \<Rightarrow> string) \<Rightarrow> pyval \<Rightarrow> string" where
  "py_str repr PNone = ''None''"
| "py_str repr (PStr s) = s"
| "py_str repr v = repr v"

section \<open>\<^verbatim>\<open>AbstractSession\<close>\<close>

definition XML_FORMAT :: int where "XML_FORMAT = 0"
definition JSON_FORMAT :: int where "JSON_FORMAT = 1"

text \<open>
  The private attribute \<^verbatim>\<open>__format\<close> is assigned in the \<^verbatim>\<open>if\<close>/\<^verbatim>\<open>elif\<close> of the
  constructor only; \<^const>\<open>None\<close> stands for an attribute that was never assigned.
\<close>

record AbstractSession =
  secure :: bool
  timeout :: int
  controllerUrl :: string
  formatType :: "int option"

text \<open>
  \<^verbatim>\<open>AbstractSession.__init__\<close> (lines 54--78).  The message of the error embeds the
  rendering of the set literal \<^verbatim>\<open>{'xml', 'json'}\<close>, whose element order the language does
  not fix: it is the argument \<open>formats\<close>.
\<close>

definition AbstractSession_init ::
  "string \<Rightarrow> string \<Rightarrow> bool \<Rightarrow> int \<Rightarrow> string \<Rightarrow> exn + AbstractSession" where
  "AbstractSession_init formats url sec tmo requestFormat =
     (if requestFormat \<notin> {''xml'', ''json''}
      then Inl (NotImplementedError (''requestFormat should be one of: '' @ formats))
      else Inr \<lparr> secure = sec, timeout = tmo, controllerUrl = url,
                 formatType =
                   (if requestFormat = ''xml'' then Some XML_FORMAT
                    else if requestFormat = ''json'' then Some JSON_FORMAT
                    else None) \<rparr>)"

text \<open>The property \<^verbatim>\<open>formatStr\<close> (lines 96--98); reading an unassigned attribute fails.\<close>

definition formatStr :: "'a AbstractSession_scheme \<Rightarrow> exn + string" where
  "formatStr self =
     (case formatType self of
        None \<Rightarrow> Inl AttributeError
      | Some f \<Rightarrow> Inr (if f = XML_FORMAT then ''xml'' else ''json''))"

section \<open>\<^verbatim>\<open>LoginSession\<close>\<close>

record LoginSession = AbstractSession +
  user :: string
  password :: string
  cookie :: pyval
  challenge :: pyval
  version :: pyval
  refreshTime :: pyval
  refreshTimeoutSeconds :: pyval

text \<open>\<^verbatim>\<open>LoginSession.__init__\<close> (lines 184--207).\<close>

definition LoginSession_init ::
  "string \<Rightarrow> string \<Rightarrow> string \<Rightarrow> string \<Rightarrow> bool \<Rightarrow> int \<Rightarrow> string \<Rightarrow> exn + LoginSession" where
  "LoginSession_init formats url usr pwd sec tmo requestFormat =
     (case AbstractSession_init formats url sec tmo requestFormat of
        Inl e \<Rightarrow> Inl e
      | Inr base \<Rightarrow>
          Inr \<lparr> secure = secure base, timeout = timeout base,
                controllerUrl = controllerUrl base, formatType = formatType base,
                user = usr, password = pwd,
                cookie = PNone, challenge = PNone, version = PNone,
                refreshTime = PNone, refreshTimeoutSeconds = PNone \<rparr>)"

text \<open>
  \<^verbatim>\<open>LoginSession.getHeaders\<close> (lines 245--259).  A header mapping is a map from header
  names to values.
\<close>

definition LoginSession_getHeaders ::
  "(pyval \<Rightarrow> string) \<Rightarrow> LoginSession \<Rightarrow> string \<Rightarrow> pyval \<Rightarrow> (string \<rightharpoonup> pyval)" where
  "LoginSession_getHeaders repr self uriPathAndOptions data =
     (let headers = [''Cookie'' \<mapsto> PStr (''APIC-cookie='' @ py_str repr (cookie self))]
      in if truthy (challenge self)
         then headers(''APIC-challenge'' \<mapsto> challenge self)
         else headers)"

text \<open>
  The response object of the transport: its raw text and what \<^verbatim>\<open>rsp.json()\<close> returns,
  \<^const>\<open>None\<close> when the body does not decode (\<^verbatim>\<open>json()\<close> then raises a \<^verbatim>\<open>ValueError\<close>).
\<close>

record response =
  rsp_text :: string
  rsp_json :: "pyval option"

text \<open>
  \<^verbatim>\<open>LoginSession._parseResponse\<close> (lines 261--282), in three parts.  The branch of an
  error record, lines 269--272, ends in a \<^verbatim>\<open>raise\<close> whatever happens: this is the
  exception it raises.
\<close>

definition raiseLoginError :: "pyval \<Rightarrow> exn" where
  "raiseLoginError firstRecord =
     (case py_getitem firstRecord ''error'' of
        Inl e \<Rightarrow> e
      | Inr errorDict \<Rightarrow>
     (case py_getitem2 errorDict ''attributes'' ''text'' of
        Inl e \<Rightarrow> e
      | Inr reasonStr \<Rightarrow>
     (case py_getitem2 errorDict ''attributes'' ''code'' of
        Inl e \<Rightarrow> e
      | Inr errorCode \<Rightarrow> LoginError errorCode reasonStr)))"

text \<open>
  The branch of a login record, lines 274--280.  \<open>now\<close> is the reading of
  \<^verbatim>\<open>time.time()\<close>.  The result is the exception raised, if any, and the session as the
  branch leaves it: the four assignments of lines 277--280 happen one after the other,
  and \<^verbatim>\<open>int\<close> is called inside the third and the fourth.
\<close>

definition storeLogin :: "pyval \<Rightarrow> rat \<Rightarrow> LoginSession \<Rightarrow> exn option \<times> LoginSession" where
  "storeLogin firstRecord now self =
     (case py_getitem3 firstRecord ''aaaLogin'' ''attributes'' ''token'' of
        Inl e \<Rightarrow> (Some e, self)
      | Inr cookie' \<Rightarrow>
     (case py_getitem3 firstRecord ''aaaLogin'' ''attributes'' ''refreshTimeoutSeconds'' of
        Inl e \<Rightarrow> (Some e, self)
      | Inr refreshTimeoutSeconds' \<Rightarrow>
     (case py_getitem3 firstRecord ''aaaLogin'' ''attributes'' ''version'' of
        Inl e \<Rightarrow> (Some e, self)
      | Inr version' \<Rightarrow>
     (let self1 = self\<lparr>cookie := cookie'\<rparr>;
          self2 = self1\<lparr>version := version'\<rparr>
      in case py_int refreshTimeoutSeconds' of
           Inl e \<Rightarrow> (Some e, self2)
         | Inr n \<Rightarrow>
     (let self3 = self2\<lparr>refreshTime := PInt (n + math_trunc now)\<rparr>
      in case py_int refreshTimeoutSeconds' of
           Inl e \<Rightarrow> (Some e, self3)
         | Inr m \<Rightarrow> (None, self3\<lparr>refreshTimeoutSeconds := PInt m\<rparr>))))))"

text \<open>
  The function itself: the envelope (lines 262--267) and the choice of the branch (lines
  268, 273 and 281).  The result is the exception raised, if any, and the session as the
  call leaves it.
\<close>

definition parseResponse ::
  "response \<Rightarrow> rat \<Rightarrow> LoginSession \<Rightarrow> exn option \<times> LoginSession" where
  "parseResponse rsp now self =
     (case rsp_json rsp of
        None \<Rightarrow> (Some ValueError, self)
      | Some rspDict \<Rightarrow>
     (case dict_get rspDict ''imdata'' of
        Inl e \<Rightarrow> (Some e, self)
      | Inr data \<Rightarrow>
     if \<not> truthy data
     then (Some (LoginError (PInt 0) (PStr (''Bad Response: '' @ rsp_text rsp))), self)
     else
     (case py_index0 data of
        Inl e \<Rightarrow> (Some e, self)
      | Inr firstRecord \<Rightarrow>
     (case py_in ''error'' firstRecord of
        Inl e \<Rightarrow> (Some e, self)
      | Inr True \<Rightarrow> (Some (raiseLoginError firstRecord), self)
      | Inr False \<Rightarrow>
     (case py_in ''aaaLogin'' firstRecord of
        Inl e \<Rightarrow> (Some e, self)
      | Inr True \<Rightarrow> storeLogin firstRecord now self
      | Inr False \<Rightarrow>
          (Some (LoginError (PInt 0) (PStr (''Bad Response: '' @ rsp_text rsp))), self))))))"

section \<open>\<^verbatim>\<open>CertSession\<close>\<close>

record CertSession = AbstractSession +
  certificateDn :: string
  privateKey :: string

text \<open>\<^verbatim>\<open>CertSession.__init__\<close> (lines 324--342).\<close>

definition CertSession_init ::
  "string \<Rightarrow> string \<Rightarrow> string \<Rightarrow> string \<Rightarrow> bool \<Rightarrow> int \<Rightarrow> string \<Rightarrow> exn + CertSession" where
  "CertSession_init formats url dn key sec tmo requestFormat =
     (case AbstractSession_init formats url sec tmo requestFormat of
        Inl e \<Rightarrow> Inl e
      | Inr base \<Rightarrow>
          Inr \<lparr> secure = secure base, timeout = timeout base,
                controllerUrl = controllerUrl base, formatType = formatType base,
                certificateDn = dn, privateKey = key \<rparr>)"

subsection \<open>The process and its surroundings\<close>

text \<open>
  The files and directories that the signing code touches: an association list from path
  to content, and the list of the directories that exist.
\<close>

record os_state =
  files :: "(string \<times> string) list"
  dirs :: "string list"

text \<open>
  The state of the running process: the module-level flag \<^verbatim>\<open>inlineSignature\<close> and the
  file system it works on.
\<close>

record process =
  inlineSignature :: bool
  os :: os_state

text \<open>
  The import at module load (lines 18--22): the flag is set by whether
  \<^verbatim>\<open>from OpenSSL.crypto import FILETYPE_PEM, load_privatekey, sign\<close> succeeds.
\<close>

definition module_init :: "bool \<Rightarrow> os_state \<Rightarrow> process" where
  "module_init import_ok st = \<lparr> inlineSignature = import_ok, os = st \<rparr>"

text \<open>
  What the code calls and does not define, as parameters: the two functions of
  \<^verbatim>\<open>OpenSSL.crypto\<close> (\<open>'k\<close> is the type of a loaded key), \<^verbatim>\<open>base64.b64encode\<close>, the
  name that \<^verbatim>\<open>tempfile.mkdtemp\<close> picks, and \<^verbatim>\<open>subprocess.Popen\<close> with
  \<^verbatim>\<open>communicate\<close>: the return code, the captured output and error streams of the command,
  and what the command did to the files.
\<close>

record 'k env =
  load_privatekey :: "string \<Rightarrow> exn + 'k"
  sign_sha256 :: "'k \<Rightarrow> string \<Rightarrow> exn + string"
  b64encode :: "string \<Rightarrow> string"
  mkdtemp :: "os_state \<Rightarrow> string"
  popen :: "string list \<Rightarrow> os_state \<Rightarrow> (int \<times> string \<times> string) \<times> os_state"

subsection \<open>Library functions with a fixed meaning\<close>

text \<open>\<^verbatim>\<open>sep.join(xs)\<close>.\<close>

fun str_join :: "string \<Rightarrow> string list \<Rightarrow> string" where
  "str_join sep [] = []"
| "str_join sep [x] = x"
| "str_join sep (x # y # ys) = x @ sep @ str_join sep (y # ys)"

text \<open>\<^verbatim>\<open>os.path.join(a, b)\<close> on a POSIX system.\<close>

definition path_join :: "string \<Rightarrow> string \<Rightarrow> string" where
  "path_join a b =
     (if prefix ''/'' b then b
      else if a = [] \<or> endswith a ''/'' then a @ b
      else a @ ''/'' @ b)"

text \<open>
  \<^verbatim>\<open>s.splitlines()\<close>: the lines of \<open>s\<close> without their line boundaries, which are line
  feed, carriage return (with a following line feed), vertical tab, form feed, the three
  separators 28--30 and the next-line character 133.
\<close>

definition is_linebreak :: "char \<Rightarrow> bool" where
  "is_linebreak c =
     (let n = (of_char c :: nat) in (10 \<le> n \<and> n \<le> 13) \<or> (28 \<le> n \<and> n \<le> 30) \<or> n = 133)"

function splitlines :: "string \<Rightarrow> string list" where
  "splitlines s =
     (if s = [] then []
      else
        let line = takeWhile (\<lambda>c. \<not> is_linebreak c) s;
            rest = dropWhile (\<lambda>c. \<not> is_linebreak c) s
        in case rest of
             [] \<Rightarrow> [line]
           | c # cs \<Rightarrow>
               line # splitlines (if c = CHR 0x0D \<and> prefix [CHR 0x0A] cs then tl cs else cs))"
  by pat_completeness auto
termination
proof (relation "measure length")
  show "wf (measure length)" by simp
next
  fix s :: string and line rest c cs
  assume "s \<noteq> []" and "rest = dropWhile (\<lambda>c. \<not> is_linebreak c) s" and "rest = c # cs"
  then have "length (c # cs) \<le> length s"
    by (metis length_dropWhile_le)
  moreover have "length (if c = CHR 0x0D \<and> prefix [CHR 0x0A] cs then tl cs else cs) \<le> length cs"
    by simp
  ultimately show "(if c = CHR 0x0D \<and> prefix [CHR 0x0A] cs then tl cs else cs, s) \<in> measure length"
    by simp
qed

declare splitlines.simps [simp del]

subsection \<open>The static helpers of \<^verbatim>\<open>CertSession\<close>\<close>

text \<open>\<^verbatim>\<open>CertSession.runCmd\<close> (lines 366--389).\<close>

definition runCmd ::
  "(string list \<Rightarrow> os_state \<Rightarrow> (int \<times> string \<times> string) \<times> os_state) \<Rightarrow>
   string list \<Rightarrow> os_state \<Rightarrow> (exn + string) \<times> os_state" where
  "runCmd run cmd st =
     (case run cmd st of
        ((returncode, out, error), st') \<Rightarrow>
          if returncode \<noteq> 0
          then (Inl (CalledProcessError returncode (str_join '' '' cmd) out), st')
          else (Inr out, st'))"

text \<open>
  \<^verbatim>\<open>CertSession.writeFile\<close> (lines 391--405) and \<^verbatim>\<open>CertSession.readFile\<close> (lines
  407--422).  The model keeps the same characters whatever the mode.
\<close>

definition writeFile :: "string option \<Rightarrow> string \<Rightarrow> string option \<Rightarrow> os_state \<Rightarrow> os_state" where
  "writeFile fileName mode fileData st =
     (case fileName of
        None \<Rightarrow> st
      | Some f \<Rightarrow>
          (let fileData' = (case fileData of None \<Rightarrow> [] | Some d \<Rightarrow> d)
           in st\<lparr>files := AList.update f fileData' (files st)\<rparr>))"

definition readFile :: "string option \<Rightarrow> string \<Rightarrow> os_state \<Rightarrow> exn + string" where
  "readFile fileName mode st =
     (case fileName of
        None \<Rightarrow> Inr []
      | Some f \<Rightarrow>
          (case map_of (files st) f of
             None \<Rightarrow> Inl (FileNotFoundError f)
           | Some fileData \<Rightarrow> Inr fileData))"

subsection \<open>\<^verbatim>\<open>CertSession._generateSignature\<close> (lines 424--493)\<close>

text \<open>
  Removing a file and removing a directory, each inside \<^verbatim>\<open>try: ... except: pass\<close>: a
  failure changes nothing.  A directory can be removed when it exists and nothing lies
  below it.
\<close>

definition os_remove :: "string \<Rightarrow> os_state \<Rightarrow> os_state" where
  "os_remove fileName st = st\<lparr>files := AList.delete fileName (files st)\<rparr>"

definition os_rmdir :: "string \<Rightarrow> os_state \<Rightarrow> os_state" where
  "os_rmdir d st =
     (if d \<in> set (dirs st)
         \<and> filter (prefix (d @ ''/'')) (map fst (files st) @ dirs st) = []
      then st\<lparr>dirs := removeAll d (dirs st)\<rparr>
      else st)"

text \<open>The loop of lines 479--487: the \<^verbatim>\<open>rmdir\<close> is tried after every file.\<close>

fun removeTmpFiles :: "string list \<Rightarrow> string \<Rightarrow> os_state \<Rightarrow> os_state" where
  "removeTmpFiles [] tempDir st = st"
| "removeTmpFiles (fileName # tmpFiles) tempDir st =
     removeTmpFiles tmpFiles tempDir (os_rmdir tempDir (os_remove fileName st))"

text \<open>
  Lines 450--464: the temporary directory is made, the payload and the key are written
  into it.  The result is the directory and the file system after the two writes.
\<close>

definition writePayloadAndKey ::
  "'k env \<Rightarrow> string \<Rightarrow> string \<Rightarrow> string option \<Rightarrow> os_state \<Rightarrow> string \<times> os_state" where
  "writePayloadAndKey env privateKeyStr uri data st0 =
     (let tempDir = mkdtemp env st0;
          st1 = st0\<lparr>dirs := tempDir # dirs st0\<rparr>;
          payloadFile = path_join tempDir ''payload'';
          keyFile = path_join tempDir ''pkey'';
          st2 = (case data of
                   None \<Rightarrow> writeFile (Some payloadFile) ''wt'' (Some (''GET'' @ uri)) st1
                 | Some d \<Rightarrow> writeFile (Some payloadFile) ''wt'' (Some (''POST'' @ uri @ d)) st1);
          st3 = writeFile (Some keyFile) ''w'' (Some privateKeyStr) st2
      in (tempDir, st3))"

text \<open>
  The \<^verbatim>\<open>else\<close> branch, lines 449--487.  An exception of \<^verbatim>\<open>runCmd\<close> or of
  \<^verbatim>\<open>readFile\<close> leaves the function before the loop that removes the files.
\<close>

definition manualSignature ::
  "'k env \<Rightarrow> string \<Rightarrow> string \<Rightarrow> string option \<Rightarrow> os_state \<Rightarrow> (exn + string) \<times> os_state" where
  "manualSignature env privateKeyStr uri data st0 =
     (case writePayloadAndKey env privateKeyStr uri data st0 of
        (tempDir, st3) \<Rightarrow>
     (let payloadFile = path_join tempDir ''payload'';
          keyFile = path_join tempDir ''pkey'';
          sigBinFile = keyFile @ ''_sig.bin'';
          sigBaseFile = keyFile @ ''_sig.base64'';
          cmd1 = [''openssl'', ''dgst'', ''-sha256'', ''-sign'', keyFile, payloadFile]
      in case runCmd (popen env) cmd1 st3 of
           (Inl e, st4) \<Rightarrow> (Inl e, st4)
         | (Inr cmd_out, st4) \<Rightarrow>
     (let st5 = writeFile (Some sigBinFile) ''wb'' (Some cmd_out) st4;
          cmd2 = [''openssl'', ''base64'', ''-in'', keyFile @ ''_sig.bin'', ''-e'',
                  ''-out'', sigBaseFile]
      in case runCmd (popen env) cmd2 st5 of
           (Inl e, st6) \<Rightarrow> (Inl e, st6)
         | (Inr out2, st6) \<Rightarrow>
     (let tmpFiles = [payloadFile, keyFile, sigBinFile, sigBaseFile]
      in case readFile (Some sigBaseFile) ''r'' st6 of
           Inl e \<Rightarrow> (Inl e, st6)
         | Inr sigBase64 \<Rightarrow>
             (Inr (concat (splitlines sigBase64)), removeTmpFiles tmpFiles tempDir st6)))))"

text \<open>The cookie of lines 489--493: the format string with its two values filled in.\<close>

definition cookieFmt :: "string \<Rightarrow> string \<Rightarrow> string" where
  "cookieFmt signature certDn =
     ''  APIC-Request-Signature='' @ signature @ '';'' @
     '' APIC-Certificate-Algorithm=v1.0;'' @
     '' APIC-Certificate-Fingerprint=fingerprint;'' @
     '' APIC-Certificate-DN='' @ certDn"

definition generateSignature ::
  "'k env \<Rightarrow> CertSession \<Rightarrow> string \<Rightarrow> string option \<Rightarrow> bool \<Rightarrow> process \<Rightarrow>
   (exn + string) \<times> process" where
  "generateSignature env self uri0 data forceManual p0 =
     (let p = (if forceManual then p0\<lparr>inlineSignature := False\<rparr> else p0);
          privateKeyStr = privateKey self;
          certDn = certificateDn self;
          uri = normalizedURI uri0
      in if inlineSignature p
         then
           (let payLoad = (case data of None \<Rightarrow> ''GET'' @ uri | Some d \<Rightarrow> ''POST'' @ uri @ d)
            in case load_privatekey env privateKeyStr of
                 Inl e \<Rightarrow> (Inl e, p)
               | Inr pkey \<Rightarrow>
                   (case sign_sha256 env pkey payLoad of
                      Inl e \<Rightarrow> (Inl e, p)
                    | Inr signedDigest \<Rightarrow>
                        (Inr (cookieFmt (b64encode env signedDigest) certDn), p)))
         else
           (case manualSignature env privateKeyStr uri data (os p) of
              (Inl e, st) \<Rightarrow> (Inl e, p\<lparr>os := st\<rparr>)
            | (Inr signature, st) \<Rightarrow> (Inr (cookieFmt signature certDn), p\<lparr>os := st\<rparr>)))"

text \<open>\<^verbatim>\<open>CertSession.getHeaders\<close> (lines 352--364).\<close>

definition CertSession_getHeaders ::
  "'k env \<Rightarrow> CertSession \<Rightarrow> string \<Rightarrow> string option \<Rightarrow> process \<Rightarrow>
   (exn + (string \<rightharpoonup> string)) \<times> process" where
  "CertSession_getHeaders env self uriPathAndOptions data p =
     (case generateSignature env self uriPathAndOptions data False p of
        (Inl e, p') \<Rightarrow> (Inl e, p')
      | (Inr cookie', p') \<Rightarrow> (Inr [''Cookie'' \<mapsto> cookie'], p'))"

subsection \<open>The two \<^verbatim>\<open>openssl\<close> commands\<close>

text \<open>
  What the two command lines of \<^verbatim>\<open>_generateSignature\<close> do, after the manual of the tool.
  \<^verbatim>\<open>openssl dgst -sha256 -sign KEY FILE\<close> prints the signature of the content of
  \<^verbatim>\<open>FILE\<close> under the key stored in \<^verbatim>\<open>KEY\<close>; \<^verbatim>\<open>openssl base64 -in IN -e -out OUT\<close>
  writes the encoding of \<^verbatim>\<open>IN\<close> to \<^verbatim>\<open>OUT\<close>.  Both exit with 1 when a file is missing,
  and the first also when the key does not sign.  The signature scheme \<open>signer\<close> and the
  encoding \<open>b64\<close> are parameters.
\<close>

definition openssl ::
  "(string \<Rightarrow> string \<Rightarrow> string option) \<Rightarrow> (string \<Rightarrow> string) \<Rightarrow>
   string list \<Rightarrow> os_state \<Rightarrow> (int \<times> string \<times> string) \<times> os_state" where
  "openssl signer b64 cmd st =
     (if length cmd = 6 \<and> take 4 cmd = [''openssl'', ''dgst'', ''-sha256'', ''-sign''] then
        (case map_of (files st) (cmd ! 4) of
           None \<Rightarrow> ((1, [], ''no key file''), st)
         | Some key \<Rightarrow>
        (case map_of (files st) (cmd ! 5) of
           None \<Rightarrow> ((1, [], ''no input file''), st)
         | Some payload \<Rightarrow>
        (case signer key payload of
           None \<Rightarrow> ((1, [], ''unable to load key''), st)
         | Some sig \<Rightarrow> ((0, sig, []), st))))
      else if length cmd = 7 \<and> take 3 cmd = [''openssl'', ''base64'', ''-in'']
              \<and> cmd ! 4 = ''-e'' \<and> cmd ! 5 = ''-out'' then
        (case map_of (files st) (cmd ! 3) of
           None \<Rightarrow> ((1, [], ''no input file''), st)
         | Some d \<Rightarrow> ((0, [], []), st\<lparr>files := AList.update (cmd ! 6) (b64 d) (files st)\<rparr>))
      else ((1, [], ''usage''), st))"

subsection \<open>A small environment to run the model in\<close>

text \<open>
  A stand-in for the surroundings, used where a statement is evaluated on concrete
  inputs: a key signs unless it is empty, the signature of a payload is the payload in
  brackets, the encoding adds a line feed, and the temporary directory is \<^verbatim>\<open>/tmp/t\<close>.
\<close>

definition example_signer :: "string \<Rightarrow> string \<Rightarrow> string option" where
  "example_signer key payload = (if key = [] then None else Some (''['' @ payload @ '']''))"

definition example_env :: "string env" where
  "example_env =
     \<lparr> load_privatekey = (\<lambda>pem. if pem = [] then Inl CryptoError else Inr pem),
       sign_sha256 = (\<lambda>k payload. Inr (''['' @ payload @ '']'')),
       b64encode = (\<lambda>b. b),
       mkdtemp = (\<lambda>st. ''/tmp/t''),
       popen = openssl example_signer (\<lambda>d. d @ [CHR 0x0A]) \<rparr>"

definition example_os :: os_state where
  "example_os = \<lparr> files = [], dirs = [''/tmp''] \<rparr>"

definition example_cert :: CertSession where
  "example_cert =
     \<lparr> secure = False, timeout = 90, controllerUrl = ''https://apic'',
       formatType = Some XML_FORMAT,
       certificateDn = ''uni/userext/user-admin/usercert-a'', privateKey = ''PEM'' \<rparr>"

definition example_login :: LoginSession where
  "example_login =
     \<lparr> secure = False, timeout = 90, controllerUrl = ''https://apic'',
       formatType = Some XML_FORMAT, user = ''admin'', password = ''pw'',
       cookie = PNone, challenge = PNone, version = PNone,
       refreshTime = PNone, refreshTimeoutSeconds = PNone \<rparr>"

subsection \<open>The canonical payload as the specification words it\<close>

text \<open>
  Section 4.3, step 2 of the specification: \<^verbatim>\<open>"GET" + normalizedURI\<close> when the body is
  absent, else \<^verbatim>\<open>"POST" + normalizedURI + body\<close>.  The code builds its payload twice, in
  \<^const>\<open>generateSignature\<close> and in \<^const>\<open>writePayloadAndKey\<close>; both are compared with
  this one below.
\<close>

definition spec_payload :: "string \<Rightarrow> string option \<Rightarrow> string" where
  "spec_payload uri body =
     (case body of None \<Rightarrow> ''GET'' @ normalizedURI uri
      | Some b \<Rightarrow> ''POST'' @ normalizedURI uri @ b)"

section \<open>Properties of the URI normalisation\<close>

lemma replace_slash_Nil: "str_replace ''//'' ''/'' [] = []"
  by (simp add: str_replace.simps)

lemma replace_slash_pair:
  "str_replace ''//'' ''/'' (CHR ''/'' # CHR ''/'' # cs) = CHR ''/'' # str_replace ''//'' ''/'' cs"
  by (subst str_replace.simps) simp

lemma replace_slash_other:
  "\<not> prefix ''//'' (c # cs) \<Longrightarrow>
   str_replace ''//'' ''/'' (c # cs) = c # str_replace ''//'' ''/'' cs"
  by (subst str_replace.simps) auto

lemmas replace_slash = replace_slash_Nil replace_slash_pair replace_slash_other

lemma prefix_char1: "prefix [a] s \<longleftrightarrow> (\<exists>ds. s = a # ds)"
  by (cases s) auto

lemma prefix_char2: "prefix [a, b] s \<longleftrightarrow> (\<exists>ds. s = a # b # ds)"
  by (cases s) (auto simp: prefix_char1)

lemma prefix_char3: "prefix [a, b, c] s \<longleftrightarrow> (\<exists>ds. s = a # b # c # ds)"
  by (cases s) (auto simp: prefix_char2)

lemmas prefix_chars = prefix_char1 prefix_char2 prefix_char3

lemma slash_induct [case_names Nil Pair Other]:
  assumes "P []"
    and "\<And>cs. P cs \<Longrightarrow> P (CHR ''/'' # CHR ''/'' # cs)"
    and "\<And>c cs. \<not> prefix ''//'' (c # cs) \<Longrightarrow> P cs \<Longrightarrow> P (c # cs)"
  shows "P s"
proof (induction s rule: length_induct)
  case (1 xs)
  show ?case
  proof (cases xs)
    case Nil
    then show ?thesis using assms(1) by simp
  next
    case (Cons c cs)
    show ?thesis
    proof (cases "prefix ''//'' (c # cs)")
      case True
      then obtain ds where "xs = CHR ''/'' # CHR ''/'' # ds"
        using Cons by (auto simp: prefix_chars)
      then show ?thesis using assms(2) 1 by simp
    next
      case False
      then show ?thesis using assms(3) 1 Cons by simp
    qed
  qed
qed

lemma replace_slash_eq_Nil: "str_replace ''//'' ''/'' s = [] \<longleftrightarrow> s = []"
  by (induction s rule: slash_induct) (simp_all add: replace_slash)

lemma replace_slash_prefix:
  "prefix ''/'' (str_replace ''//'' ''/'' s) \<longleftrightarrow> prefix ''/'' s"
  by (induction s rule: slash_induct) (simp_all add: replace_slash)

lemma replace_slash_length: "length (str_replace ''//'' ''/'' s) \<le> length s"
  by (induction s rule: slash_induct) (simp_all add: replace_slash)

lemma replace_slash_last:
  "s \<noteq> [] \<Longrightarrow> last (str_replace ''//'' ''/'' s) = last s"
  by (induction s rule: slash_induct) (auto simp: replace_slash replace_slash_eq_Nil)

lemma replace_slash_contains:
  "str_contains ''//'' (str_replace ''//'' ''/'' s) \<longleftrightarrow> str_contains ''///'' s"
proof (induction s rule: slash_induct)
  case Nil
  then show ?case by (simp add: replace_slash_Nil)
next
  case (Pair cs)
  then show ?case
    using replace_slash_prefix [of cs]
    by (cases cs) (auto simp: replace_slash_pair prefix_chars)
next
  case (Other c cs)
  then show ?case
    using replace_slash_prefix [of cs]
    by (auto simp: replace_slash_other prefix_chars)
qed

lemma replace_slash_shorter:
  "str_contains ''//'' s \<Longrightarrow> length (str_replace ''//'' ''/'' s) < length s"
proof (induction s rule: slash_induct)
  case Nil
  then show ?case by simp
next
  case (Pair cs)
  then show ?case
    using replace_slash_length [of cs] by (simp add: replace_slash_pair)
next
  case (Other c cs)
  then show ?case by (auto simp: replace_slash_other)
qed

lemma replace_slash_id:
  "\<not> str_contains ''//'' s \<Longrightarrow> str_replace ''//'' ''/'' s = s"
proof (induction s rule: slash_induct)
  case Nil
  then show ?case by (simp add: replace_slash_Nil)
next
  case (Pair cs)
  then show ?case by simp
next
  case (Other c cs)
  then show ?case by (auto simp: replace_slash_other)
qed

lemma replace_slash_fixed:
  "str_replace ''//'' ''/'' s = s \<longleftrightarrow> \<not> str_contains ''//'' s"
  using replace_slash_id [of s] replace_slash_shorter [of s] by auto

lemma endswith_char: "endswith s [a] \<longleftrightarrow> s \<noteq> [] \<and> last s = a"
  by (cases s rule: rev_cases) (auto simp: endswith_def)

lemma endswith_char2:
  "endswith s [a, b] \<longleftrightarrow> endswith s [b] \<and> endswith (butlast s) [a]"
proof (cases s rule: rev_cases)
  case Nil
  then show ?thesis by (simp add: endswith_def)
next
  case (snoc ys y)
  have "suffix ([a] @ [b]) (ys @ [y]) \<longleftrightarrow> b = y \<and> suffix [a] ys"
    by (simp only: snoc_suffix_snoc)
  then show ?thesis
    using snoc by (auto simp: endswith_def)
qed

lemma contains_snoc:
  "t \<noteq> [] \<Longrightarrow> last t \<noteq> c \<Longrightarrow> str_contains t (s @ [c]) \<longleftrightarrow> str_contains t s"
proof (induction s)
  case Nil
  then show ?case by (cases t) (auto simp: prefix_Cons)
next
  case (Cons x xs)
  have "prefix t ((x # xs) @ [c]) \<longleftrightarrow> prefix t (x # xs)"
    using Cons.prems by (metis last_snoc prefix_snoc)
  then show ?case using Cons by simp
qed

lemma contains_butlast:
  "endswith s ''?'' \<Longrightarrow> str_contains ''///'' (butlast s) \<longleftrightarrow> str_contains ''///'' s"
proof -
  assume "endswith s ''?''"
  then obtain ys where s: "s = ys @ ''?''"
    by (auto simp: endswith_def suffix_def)
  show ?thesis unfolding s using contains_snoc [of "''///''" "CHR ''?''" ys] by simp
qed

lemma normalizedURI_endswith:
  "endswith (normalizedURI uri) ''?'' \<longleftrightarrow> endswith uri ''??''"
proof (cases "endswith uri ''?''")
  case True
  then show ?thesis
    by (auto simp: normalizedURI_def endswith_char2 endswith_char replace_slash_last replace_slash_eq_Nil)
next
  case False
  then show ?thesis
    by (auto simp: normalizedURI_def endswith_char2 endswith_char replace_slash_last replace_slash_eq_Nil)
qed

lemma normalizedURI_contains:
  "str_contains ''//'' (normalizedURI uri) \<longleftrightarrow> str_contains ''///'' uri"
  by (simp add: normalizedURI_def replace_slash_contains contains_butlast)

lemma normalizedURI_length: "endswith uri ''?'' \<Longrightarrow> length (normalizedURI uri) < length uri"
proof -
  assume e: "endswith uri ''?''"
  then have "uri \<noteq> []" by (simp add: endswith_char)
  then have "length (butlast uri) < length uri" by simp
  then show ?thesis
    using e replace_slash_length [of "butlast uri"] by (simp add: normalizedURI_def)
qed

lemma normalizedURI_idem_iff:
  "normalizedURI (normalizedURI uri) = normalizedURI uri \<longleftrightarrow>
   \<not> str_contains ''///'' uri \<and> \<not> endswith uri ''??''"
proof (cases "endswith (normalizedURI uri) ''?''")
  case True
  then have "normalizedURI (normalizedURI uri) \<noteq> normalizedURI uri"
    using normalizedURI_length [of "normalizedURI uri"] by auto
  then show ?thesis using True by (simp add: normalizedURI_endswith)
next
  case False
  then have "normalizedURI (normalizedURI uri) = str_replace ''//'' ''/'' (normalizedURI uri)"
    by (simp add: normalizedURI_def [of "normalizedURI uri"])
  then show ?thesis
    using False by (simp add: replace_slash_fixed normalizedURI_contains normalizedURI_endswith)
qed


text \<open>
  Claim C1, as the code has it.  \<^verbatim>\<open>replace\<close> makes one pass over the URI and replaces
  the non-overlapping occurrences of \<^verbatim>\<open>//\<close> from the left, so a run of three or more
  slashes leaves a \<^verbatim>\<open>//\<close> behind: the normalized URI contains \<^verbatim>\<open>//\<close> exactly when the
  URI contains \<^verbatim>\<open>///\<close>; and normalizing twice gives the same as normalizing once
  exactly when the URI contains no \<^verbatim>\<open>///\<close> and does not end in \<^verbatim>\<open>??\<close>.
\<close>

theorem normalizedURI_collapse:
  "(str_contains ''//'' (normalizedURI uri) \<longleftrightarrow> str_contains ''///'' uri) \<and>
   (normalizedURI (normalizedURI uri) = normalizedURI uri \<longleftrightarrow>
      \<not> str_contains ''///'' uri \<and> \<not> endswith uri ''??'')"
  using normalizedURI_contains normalizedURI_idem_iff by blast

theorem normalizedURI_collapse_witness:
  "\<not> str_contains ''//'' (normalizedURI ''/api//node//mo?'') \<and>
   normalizedURI (normalizedURI ''/api//node//mo?'') = normalizedURI ''/api//node//mo?''"
  using normalizedURI_collapse [of "''/api//node//mo?''"]
  by (simp add: endswith_char endswith_char2)

text \<open>
  C1 as the specification words it fails on a run of three slashes: a \<^verbatim>\<open>//\<close> is left,
  and a second normalisation changes the URI again.
\<close>

theorem normalizedURI_collapse_counterexample:
  "str_contains ''//'' (normalizedURI ''/api///node'') \<and>
   normalizedURI (normalizedURI ''/api///node'') \<noteq> normalizedURI ''/api///node''"
  by code_simp

text \<open>
  Claim C2, as the code has it.  One trailing \<^verbatim>\<open>?\<close> is removed and no more: the
  normalized URI, which the payload carries before the body, ends in \<^verbatim>\<open>?\<close> exactly when
  the URI ends in \<^verbatim>\<open>??\<close>.  So a URI ending in a single \<^verbatim>\<open>?\<close> loses it.
\<close>

theorem normalizedURI_trailing_question:
  "endswith (normalizedURI uri) ''?'' \<longleftrightarrow> endswith uri ''??''"
  by (rule normalizedURI_endswith)

theorem normalizedURI_trailing_question_witness:
  "endswith ''/api/node?'' ''?'' \<and> \<not> endswith (normalizedURI ''/api/node?'') ''?''"
  using normalizedURI_trailing_question [of "''/api/node?''"]
  by (simp add: endswith_char endswith_char2)

text \<open>C2 as the specification words it fails on a URI ending in two question marks.\<close>

theorem normalizedURI_trailing_question_counterexample:
  "endswith ''/api/node??'' ''?'' \<and> endswith (normalizedURI ''/api/node??'') ''?''"
  by code_simp

section \<open>Construction of a session\<close>

text \<open>
  Claim C8.  A \<^verbatim>\<open>requestFormat\<close> outside \<^verbatim>\<open>xml\<close> and \<^verbatim>\<open>json\<close> makes the constructor
  raise (the \<^verbatim>\<open>NotImplementedError\<close> of line 70 is the configuration error) and no session
  is made, for the base class and for both session classes; with \<^verbatim>\<open>xml\<close> or \<^verbatim>\<open>json\<close>
  the constructor returns a session whose \<^verbatim>\<open>formatStr\<close> is the string passed in.
\<close>

theorem session_init_requestFormat:
  "(requestFormat \<notin> {''xml'', ''json''} \<longrightarrow>
      (\<exists>msg. AbstractSession_init formats url sec tmo requestFormat = Inl (NotImplementedError msg)
           \<and> LoginSession_init formats url usr pwd sec tmo requestFormat = Inl (NotImplementedError msg)
           \<and> CertSession_init formats url dn key sec tmo requestFormat = Inl (NotImplementedError msg))) \<and>
   (requestFormat \<in> {''xml'', ''json''} \<longrightarrow>
      (\<exists>s. AbstractSession_init formats url sec tmo requestFormat = Inr s
           \<and> formatStr s = Inr requestFormat) \<and>
      (\<exists>s. LoginSession_init formats url usr pwd sec tmo requestFormat = Inr s
           \<and> formatStr s = Inr requestFormat) \<and>
      (\<exists>s. CertSession_init formats url dn key sec tmo requestFormat = Inr s
           \<and> formatStr s = Inr requestFormat))"
  by (auto simp: AbstractSession_init_def LoginSession_init_def CertSession_init_def
      formatStr_def XML_FORMAT_def JSON_FORMAT_def)

theorem session_init_requestFormat_witness:
  "(\<exists>msg. LoginSession_init ''{'xml', 'json'}'' ''https://apic'' ''admin'' ''pw'' False 90 ''yaml''
            = Inl (NotImplementedError msg)) \<and>
   (\<exists>s. LoginSession_init ''{'xml', 'json'}'' ''https://apic'' ''admin'' ''pw'' False 90 ''json'' = Inr s
        \<and> formatStr s = Inr ''json'') \<and>
   (\<exists>s. CertSession_init ''{'xml', 'json'}'' ''https://apic'' ''dn'' ''PEM'' False 90 ''xml'' = Inr s
        \<and> formatStr s = Inr ''xml'')"
  using session_init_requestFormat [of "''yaml''" "''{'xml', 'json'}''" "''https://apic''" False 90
      "''admin''" "''pw''" "''dn''" "''PEM''"]
    session_init_requestFormat [of "''json''" "''{'xml', 'json'}''" "''https://apic''" False 90
      "''admin''" "''pw''" "''dn''" "''PEM''"]
    session_init_requestFormat [of "''xml''" "''{'xml', 'json'}''" "''https://apic''" False 90
      "''admin''" "''pw''" "''dn''" "''PEM''"]
  by auto

section \<open>Headers of a login session\<close>

text \<open>
  Claim C10.  On a freshly constructed login session the cookie and the challenge are
  \<^verbatim>\<open>None\<close>, and \<^verbatim>\<open>getHeaders\<close> returns the mapping with the one entry
  \<^verbatim>\<open>Cookie: APIC-cookie=None\<close>: the missing token is printed as the text \<^verbatim>\<open>None\<close>, and
  there is no \<^verbatim>\<open>APIC-challenge\<close> key.  The function has no failing branch.
\<close>

theorem getHeaders_before_login:
  "LoginSession_init formats url usr pwd sec tmo requestFormat = Inr self \<Longrightarrow>
   cookie self = PNone \<and> challenge self = PNone \<and>
   LoginSession_getHeaders repr self uriPathAndOptions data = [''Cookie'' \<mapsto> PStr ''APIC-cookie=None''] \<and>
   dom (LoginSession_getHeaders repr self uriPathAndOptions data) = {''Cookie''} \<and>
   ''APIC-challenge'' \<notin> dom (LoginSession_getHeaders repr self uriPathAndOptions data)"
  by (auto simp: LoginSession_init_def LoginSession_getHeaders_def split: sum.splits if_splits)

theorem getHeaders_before_login_witness:
  "LoginSession_init ''{'xml', 'json'}'' ''https://apic'' ''admin'' ''pw'' False 90 ''xml'' = Inr example_login \<and>
   LoginSession_getHeaders (\<lambda>v. ''?'') example_login ''/api/node/mo.xml'' (PStr ''<x/>'')
     = [''Cookie'' \<mapsto> PStr ''APIC-cookie=None'']"
proof -
  have h: "LoginSession_init ''{'xml', 'json'}'' ''https://apic'' ''admin'' ''pw'' False 90 ''xml'' = Inr example_login"
    by (simp add: LoginSession_init_def AbstractSession_init_def example_login_def)
  show ?thesis
    using h getHeaders_before_login [OF h] by simp
qed

section \<open>Properties of the signature generation\<close>

lemma generateSignature_manual:
  "\<not> inlineSignature p \<or> forceManual \<Longrightarrow>
   fst (generateSignature env self uri data forceManual p) =
     (case manualSignature env (privateKey self) (normalizedURI uri) data (os p) of
        (Inl e, st) \<Rightarrow> Inl e
      | (Inr sg, st) \<Rightarrow> Inr (cookieFmt sg (certificateDn self)))"
  by (auto simp: generateSignature_def Let_def split: sum.splits prod.splits)

lemma generateSignature_inline:
  "inlineSignature p \<and> \<not> forceManual \<Longrightarrow>
   generateSignature env self uri data forceManual p =
     (case load_privatekey env (privateKey self) of
        Inl e \<Rightarrow> Inl e
      | Inr pkey \<Rightarrow>
          (case sign_sha256 env pkey (spec_payload uri data) of
             Inl e \<Rightarrow> Inl e
           | Inr signedDigest \<Rightarrow> Inr (cookieFmt (b64encode env signedDigest) (certificateDn self))), p)"
  by (auto simp: generateSignature_def spec_payload_def Let_def split: sum.splits prod.splits option.splits)

lemma path_join_relative:
  "\<not> prefix ''/'' b \<Longrightarrow>
   path_join d b = (if d = [] \<or> endswith d ''/'' then d else d @ ''/'') @ b"
  by (simp add: path_join_def)

lemma temp_paths:
  obtains pre where "path_join d ''payload'' = pre @ ''payload''"
    and "path_join d ''pkey'' = pre @ ''pkey''"
proof
  show "path_join d ''payload'' = (if d = [] \<or> endswith d ''/'' then d else d @ ''/'') @ ''payload''"
    by (rule path_join_relative) simp
  show "path_join d ''pkey'' = (if d = [] \<or> endswith d ''/'' then d else d @ ''/'') @ ''pkey''"
    by (rule path_join_relative) simp
qed

lemma writePayloadAndKey_files:
  "fst (writePayloadAndKey env key uri data st0) = mkdtemp env st0 \<and>
   map_of (files (snd (writePayloadAndKey env key (normalizedURI uri0) data st0)))
      (path_join (mkdtemp env st0) ''payload'') = Some (spec_payload uri0 data) \<and>
   map_of (files (snd (writePayloadAndKey env key uri data st0)))
      (path_join (mkdtemp env st0) ''pkey'') = Some key"
proof -
  obtain pre where pre: "path_join (mkdtemp env st0) ''payload'' = pre @ ''payload''"
      "path_join (mkdtemp env st0) ''pkey'' = pre @ ''pkey''"
    by (rule temp_paths)
  show ?thesis
    by (simp add: writePayloadAndKey_def Let_def writeFile_def pre update_conv' spec_payload_def
        split: option.splits)
qed

lemma manualSignature_openssl:
  assumes "popen env = openssl signer b64"
  shows "fst (manualSignature env key (normalizedURI uri0) data st0) =
     (case signer key (spec_payload uri0 data) of
        None \<Rightarrow> Inl (CalledProcessError 1
                 (str_join '' '' [''openssl'', ''dgst'', ''-sha256'', ''-sign'',
                    path_join (mkdtemp env st0) ''pkey'', path_join (mkdtemp env st0) ''payload''])
                 [])
      | Some sg \<Rightarrow> Inr (concat (splitlines (b64 sg))))"
proof -
  obtain pre where pre: "path_join (mkdtemp env st0) ''payload'' = pre @ ''payload''"
      "path_join (mkdtemp env st0) ''pkey'' = pre @ ''pkey''"
    by (rule temp_paths)
  show ?thesis
    by (simp add: manualSignature_def writePayloadAndKey_def Let_def writeFile_def readFile_def
        runCmd_def assms openssl_def pre update_conv' spec_payload_def
        split: option.splits)
qed

lemma generateSignature_flag:
  "inlineSignature (snd (generateSignature env self uri data forceManual p)) =
     (inlineSignature p \<and> \<not> forceManual)"
  by (auto simp: generateSignature_def Let_def split: sum.splits prod.splits)


lemma cookieFmt_literal:
  "cookieFmt s d = ''  APIC-Request-Signature='' @ s @
     ''; APIC-Certificate-Algorithm=v1.0; APIC-Certificate-Fingerprint=fingerprint; APIC-Certificate-DN='' @ d"
  by (simp add: cookieFmt_def)

lemma manualSignature_first_command_fails:
  assumes "writePayloadAndKey env key uri data st0 = (d, st3)"
    and "popen env [''openssl'', ''dgst'', ''-sha256'', ''-sign'', path_join d ''pkey'',
                    path_join d ''payload''] st3 = ((rc, out, err), st4)"
    and "rc \<noteq> 0"
  shows "manualSignature env key uri data st0 =
     (Inl (CalledProcessError rc
            (''openssl dgst -sha256 -sign '' @ path_join d ''pkey'' @ '' '' @ path_join d ''payload'')
            out), st4)"
  using assms by (simp add: manualSignature_def Let_def runCmd_def)

lemma example_popen: "popen example_env = openssl example_signer (\<lambda>d. d @ [CHR 0x0A])"
  by (simp add: example_env_def)


text \<open>
  Claim C3.  With the in-process signer the payload handed to \<^verbatim>\<open>sign\<close> is the payload
  of the specification: \<^verbatim>\<open>GET\<close> and the normalized URI without a body, \<^verbatim>\<open>POST\<close>, the
  normalized URI and the body with one.  With the external tool the same string is what
  the payload file holds when the tool is started, so that a tool that signs the content
  of that file signs this payload.  For \<^verbatim>\<open>/api/node?\<close> without a body the payload is
  \<^verbatim>\<open>GET/api/node\<close>.
\<close>

theorem canonical_payload_signed:
  "(inlineSignature p \<and> \<not> forceManual \<longrightarrow>
      fst (generateSignature env self uri data forceManual p) =
        (case load_privatekey env (privateKey self) of
           Inl e \<Rightarrow> Inl e
         | Inr pkey \<Rightarrow>
             (case sign_sha256 env pkey (spec_payload uri data) of
                Inl e \<Rightarrow> Inl e
              | Inr signedDigest \<Rightarrow>
                  Inr (cookieFmt (b64encode env signedDigest) (certificateDn self))))) \<and>
   map_of (files (snd (writePayloadAndKey env (privateKey self) (normalizedURI uri) data (os p))))
      (path_join (mkdtemp env (os p)) ''payload'') = Some (spec_payload uri data) \<and>
   ((\<not> inlineSignature p \<or> forceManual) \<and> popen env = openssl signer b64 \<longrightarrow>
      fst (generateSignature env self uri data forceManual p) =
        (case signer (privateKey self) (spec_payload uri data) of
           None \<Rightarrow>
             Inl (CalledProcessError 1
                   (str_join '' '' [''openssl'', ''dgst'', ''-sha256'', ''-sign'',
                      path_join (mkdtemp env (os p)) ''pkey'',
                      path_join (mkdtemp env (os p)) ''payload''])
                   [])
         | Some sg \<Rightarrow> Inr (cookieFmt (concat (splitlines (b64 sg))) (certificateDn self)))) \<and>
   spec_payload uri None = ''GET'' @ normalizedURI uri \<and>
   spec_payload uri (Some body) = ''POST'' @ normalizedURI uri @ body \<and>
   spec_payload ''/api/node?'' None = ''GET/api/node''"
proof -
  have a: "inlineSignature p \<and> \<not> forceManual \<longrightarrow>
      fst (generateSignature env self uri data forceManual p) =
        (case load_privatekey env (privateKey self) of
           Inl e \<Rightarrow> Inl e
         | Inr pkey \<Rightarrow>
             (case sign_sha256 env pkey (spec_payload uri data) of
                Inl e \<Rightarrow> Inl e
              | Inr signedDigest \<Rightarrow>
                  Inr (cookieFmt (b64encode env signedDigest) (certificateDn self))))"
    by (simp add: generateSignature_inline)
  have b: "map_of (files (snd (writePayloadAndKey env (privateKey self) (normalizedURI uri) data (os p))))
      (path_join (mkdtemp env (os p)) ''payload'') = Some (spec_payload uri data)"
    using writePayloadAndKey_files by blast
  have c: "(\<not> inlineSignature p \<or> forceManual) \<and> popen env = openssl signer b64 \<longrightarrow>
      fst (generateSignature env self uri data forceManual p) =
        (case signer (privateKey self) (spec_payload uri data) of
           None \<Rightarrow>
             Inl (CalledProcessError 1
                   (str_join '' '' [''openssl'', ''dgst'', ''-sha256'', ''-sign'',
                      path_join (mkdtemp env (os p)) ''pkey'',
                      path_join (mkdtemp env (os p)) ''payload''])
                   [])
         | Some sg \<Rightarrow> Inr (cookieFmt (concat (splitlines (b64 sg))) (certificateDn self)))"
  proof (intro impI, elim conjE)
    assume m: "\<not> inlineSignature p \<or> forceManual" and o: "popen env = openssl signer b64"
    obtain r st where r: "manualSignature env (privateKey self) (normalizedURI uri) data (os p) = (r, st)"
      by (cases "manualSignature env (privateKey self) (normalizedURI uri) data (os p)")
    have "r = fst (manualSignature env (privateKey self) (normalizedURI uri) data (os p))"
      by (simp add: r)
    then have "r = (case signer (privateKey self) (spec_payload uri data) of
        None \<Rightarrow> Inl (CalledProcessError 1
                 (str_join '' '' [''openssl'', ''dgst'', ''-sha256'', ''-sign'',
                    path_join (mkdtemp env (os p)) ''pkey'', path_join (mkdtemp env (os p)) ''payload''])
                 [])
      | Some sg \<Rightarrow> Inr (concat (splitlines (b64 sg))))"
      by (simp only: manualSignature_openssl [OF o])
    then show "fst (generateSignature env self uri data forceManual p) =
        (case signer (privateKey self) (spec_payload uri data) of
           None \<Rightarrow>
             Inl (CalledProcessError 1
                   (str_join '' '' [''openssl'', ''dgst'', ''-sha256'', ''-sign'',
                      path_join (mkdtemp env (os p)) ''pkey'',
                      path_join (mkdtemp env (os p)) ''payload''])
                   [])
         | Some sg \<Rightarrow> Inr (cookieFmt (concat (splitlines (b64 sg))) (certificateDn self)))"
      using generateSignature_manual [OF m, of env self uri data] r
      by (simp split: option.splits)
  qed
  have d: "spec_payload ''/api/node?'' None = ''GET/api/node''"
    by code_simp
  show ?thesis using a b c d by (simp add: spec_payload_def)
qed


theorem canonical_payload_signed_witness:
  "inlineSignature (module_init True example_os) \<and>
   fst (generateSignature example_env example_cert ''/api/node?'' None False (module_init True example_os))
     = Inr (cookieFmt ''[GET/api/node]'' ''uni/userext/user-admin/usercert-a'') \<and>
   popen example_env = openssl example_signer (\<lambda>d. d @ [CHR 0x0A]) \<and>
   fst (generateSignature example_env example_cert ''/api/node?'' None True (module_init True example_os))
     = Inr (cookieFmt ''[GET/api/node]'' ''uni/userext/user-admin/usercert-a'')"
proof -
  have i: "inlineSignature (module_init True example_os)"
    by (simp add: module_init_def)
  have l: "concat (splitlines (''[GET/api/node]'' @ [CHR 0x0A])) = ''[GET/api/node]''"
    by code_simp
  have e: "load_privatekey example_env (privateKey example_cert) = Inr ''PEM''"
      "sign_sha256 example_env ''PEM'' ''GET/api/node'' = Inr ''[GET/api/node]''"
      "b64encode example_env ''[GET/api/node]'' = ''[GET/api/node]''"
      "certificateDn example_cert = ''uni/userext/user-admin/usercert-a''"
      "example_signer (privateKey example_cert) ''GET/api/node'' = Some ''[GET/api/node]''"
    by (simp_all add: example_env_def example_cert_def example_signer_def)
  show ?thesis
    using i example_popen l e
      canonical_payload_signed [of "module_init True example_os" False example_env example_cert
        "''/api/node?''" None example_signer "\<lambda>d. d @ [CHR 0x0A]"]
      canonical_payload_signed [of "module_init True example_os" True example_env example_cert
        "''/api/node?''" None example_signer "\<lambda>d. d @ [CHR 0x0A]"]
    by simp
qed


text \<open>
  Claim C4, as the code has it.  The format string of line 489 begins with two spaces:
  the \<^verbatim>\<open>Cookie\<close> value that \<^verbatim>\<open>CertSession.getHeaders\<close> returns is two spaces, then
  \<^verbatim>\<open>APIC-Request-Signature=\<close>, the signature, and the three fixed fields, the
  fingerprint being the literal word \<^verbatim>\<open>fingerprint\<close>, ending with the certificate DN.
\<close>

theorem getHeaders_cookie_format:
  "cookieFmt s d = ''  APIC-Request-Signature='' @ s @
     ''; APIC-Certificate-Algorithm=v1.0; APIC-Certificate-Fingerprint=fingerprint; APIC-Certificate-DN='' @ d \<and>
   (CertSession_getHeaders env self uri data p = (Inr h, p') \<longrightarrow>
      (\<exists>sg. h = [''Cookie'' \<mapsto> ''  APIC-Request-Signature='' @ sg @
         ''; APIC-Certificate-Algorithm=v1.0; APIC-Certificate-Fingerprint=fingerprint; APIC-Certificate-DN=''
         @ certificateDn self])) \<and>
   (inlineSignature p \<and> load_privatekey env (privateKey self) = Inr pkey
      \<and> sign_sha256 env pkey (spec_payload uri data) = Inr signedDigest \<longrightarrow>
      fst (CertSession_getHeaders env self uri data p) =
        Inr [''Cookie'' \<mapsto> ''  APIC-Request-Signature='' @ b64encode env signedDigest @
         ''; APIC-Certificate-Algorithm=v1.0; APIC-Certificate-Fingerprint=fingerprint; APIC-Certificate-DN=''
         @ certificateDn self])"
proof -
  have 2: "CertSession_getHeaders env self uri data p = (Inr h, p') \<longrightarrow>
      (\<exists>sg. h = [''Cookie'' \<mapsto> cookieFmt sg (certificateDn self)])"
    by (auto simp: CertSession_getHeaders_def generateSignature_def Let_def
        split: prod.splits sum.splits if_splits)
  have 3: "inlineSignature p \<and> load_privatekey env (privateKey self) = Inr pkey
      \<and> sign_sha256 env pkey (spec_payload uri data) = Inr signedDigest \<longrightarrow>
      fst (CertSession_getHeaders env self uri data p) =
        Inr [''Cookie'' \<mapsto> cookieFmt (b64encode env signedDigest) (certificateDn self)]"
    using generateSignature_inline [of p False env self uri data]
    by (auto simp: CertSession_getHeaders_def)
  show ?thesis
    using 2 3 unfolding cookieFmt_literal by simp
qed

theorem getHeaders_cookie_format_witness:
  "inlineSignature (module_init True example_os) \<and>
   load_privatekey example_env (privateKey example_cert) = Inr ''PEM'' \<and>
   sign_sha256 example_env ''PEM'' (spec_payload ''/api/node?'' None) = Inr ''[GET/api/node]'' \<and>
   fst (CertSession_getHeaders example_env example_cert ''/api/node?'' None
          (module_init True example_os)) =
     Inr [''Cookie'' \<mapsto> ''  APIC-Request-Signature=[GET/api/node]; APIC-Certificate-Algorithm=v1.0; APIC-Certificate-Fingerprint=fingerprint; APIC-Certificate-DN=uni/userext/user-admin/usercert-a'']"
proof -
  have i: "inlineSignature (module_init True example_os)"
    by (simp add: module_init_def)
  have k: "load_privatekey example_env (privateKey example_cert) = Inr ''PEM''"
    by (simp add: example_env_def example_cert_def)
  have p: "spec_payload ''/api/node?'' None = ''GET/api/node''"
    by code_simp
  have s: "sign_sha256 example_env ''PEM'' (spec_payload ''/api/node?'' None) = Inr ''[GET/api/node]''"
    by (simp add: p example_env_def)
  have e: "b64encode example_env ''[GET/api/node]'' = ''[GET/api/node]''"
      "certificateDn example_cert = ''uni/userext/user-admin/usercert-a''"
    by (simp_all add: example_env_def example_cert_def)
  show ?thesis
    using i k s e
      getHeaders_cookie_format [where env = example_env and self = example_cert
        and uri = "''/api/node?''" and data = None and p = "module_init True example_os"
        and pkey = "''PEM''" and signedDigest = "''[GET/api/node]''",
        THEN conjunct2, THEN conjunct2]
    by simp
qed

text \<open>
  C4 as the specification words it, without the two leading spaces, is not the value
  that the code returns.
\<close>

theorem getHeaders_cookie_format_counterexample:
  "fst (CertSession_getHeaders example_env example_cert ''/api/node?'' None (module_init True example_os))
     \<noteq> Inr [''Cookie'' \<mapsto> ''APIC-Request-Signature=[GET/api/node]; APIC-Certificate-Algorithm=v1.0; APIC-Certificate-Fingerprint=fingerprint; APIC-Certificate-DN=uni/userext/user-admin/usercert-a'']"
proof -
  have g: "generateSignature example_env example_cert ''/api/node?'' None False (module_init True example_os)
     = (Inr ''  APIC-Request-Signature=[GET/api/node]; APIC-Certificate-Algorithm=v1.0; APIC-Certificate-Fingerprint=fingerprint; APIC-Certificate-DN=uni/userext/user-admin/usercert-a'',
        module_init True example_os)"
    by code_simp
  show ?thesis
    by (auto simp: CertSession_getHeaders_def g dest: map_upd_eqD1)
qed


text \<open>
  Claim C5, as the code has it.  The flag \<^verbatim>\<open>inlineSignature\<close> is set once when the
  module is loaded.  A call of \<^verbatim>\<open>_generateSignature\<close> without \<^verbatim>\<open>forceManual\<close>, and so
  every call of \<^verbatim>\<open>getHeaders\<close>, leaves it as it is; a call with \<^verbatim>\<open>forceManual=True\<close>
  assigns \<^verbatim>\<open>False\<close> to the module-level flag, and the next call without the override,
  on any session, takes the external-tool branch.
\<close>

theorem backend_selection:
  "inlineSignature (module_init import_ok st) = import_ok \<and>
   inlineSignature (snd (generateSignature env self uri data forceManual p)) =
     (inlineSignature p \<and> \<not> forceManual) \<and>
   inlineSignature (snd (CertSession_getHeaders env self uri data p)) = inlineSignature p \<and>
   fst (generateSignature env self' uri' data' False
          (snd (generateSignature env self uri data True p))) =
     (case manualSignature env (privateKey self') (normalizedURI uri') data'
             (os (snd (generateSignature env self uri data True p))) of
        (Inl e, st') \<Rightarrow> Inl e
      | (Inr sg, st') \<Rightarrow> Inr (cookieFmt sg (certificateDn self')))"
proof -
  have 1: "inlineSignature (module_init import_ok st) = import_ok"
    by (simp add: module_init_def)
  have 2: "inlineSignature (snd (CertSession_getHeaders env self uri data p)) = inlineSignature p"
    using generateSignature_flag [of env self uri data False p]
    by (auto simp: CertSession_getHeaders_def split: prod.splits sum.splits)
  have "\<not> inlineSignature (snd (generateSignature env self uri data True p))"
    by (simp add: generateSignature_flag)
  then have 3: "fst (generateSignature env self' uri' data' False
          (snd (generateSignature env self uri data True p))) =
     (case manualSignature env (privateKey self') (normalizedURI uri') data'
             (os (snd (generateSignature env self uri data True p))) of
        (Inl e, st') \<Rightarrow> Inl e
      | (Inr sg, st') \<Rightarrow> Inr (cookieFmt sg (certificateDn self')))"
    by (simp add: generateSignature_manual)
  show ?thesis using 1 2 3 generateSignature_flag by blast
qed

theorem backend_selection_witness:
  "inlineSignature (snd (generateSignature example_env example_cert ''/api/node'' None False
                            (module_init True example_os))) \<and>
   \<not> inlineSignature (snd (generateSignature example_env example_cert ''/api/node'' None True
                            (module_init True example_os)))"
  using backend_selection [of True example_os example_env example_cert "''/api/node''" None False
      "module_init True example_os"]
    backend_selection [of True example_os example_env example_cert "''/api/node''" None True
      "module_init True example_os"]
  by simp

text \<open>
  C5 as the specification words it fails: the process starts with the in-process signer
  selected, and after one call with the override the flag is off.
\<close>

theorem backend_selection_counterexample:
  "inlineSignature (module_init True example_os) \<and>
   \<not> inlineSignature (snd (generateSignature example_env example_cert ''/api/node'' None True
                            (module_init True example_os)))"
  by code_simp


text \<open>
  Claim C9.  \<^verbatim>\<open>runCmd\<close> returns the captured output when the command exits with 0, and
  raises \<^verbatim>\<open>CalledProcessError\<close> with the exit code, the command line joined by spaces and
  the captured output exactly when the exit code is not 0.  In the external-tool branch
  the error of the signing command is what \<^verbatim>\<open>_generateSignature\<close> raises.
\<close>

theorem runCmd_result:
  "(run cmd st = ((returncode, out, err), st') \<longrightarrow>
      (returncode = 0 \<longrightarrow> runCmd run cmd st = (Inr out, st')) \<and>
      (returncode \<noteq> 0 \<longrightarrow>
         runCmd run cmd st = (Inl (CalledProcessError returncode (str_join '' '' cmd) out), st')) \<and>
      ((\<exists>e. fst (runCmd run cmd st) = Inl e) \<longleftrightarrow> returncode \<noteq> 0)) \<and>
   ((\<not> inlineSignature p \<or> forceManual)
      \<and> writePayloadAndKey env (privateKey self) (normalizedURI uri) data (os p) = (d, st3)
      \<and> popen env [''openssl'', ''dgst'', ''-sha256'', ''-sign'', path_join d ''pkey'',
                    path_join d ''payload''] st3 = ((rc, out1, err1), st4)
      \<and> rc \<noteq> 0 \<longrightarrow>
      fst (generateSignature env self uri data forceManual p) =
        Inl (CalledProcessError rc
              (''openssl dgst -sha256 -sign '' @ path_join d ''pkey'' @ '' '' @ path_join d ''payload'')
              out1))"
proof -
  have 1: "run cmd st = ((returncode, out, err), st') \<longrightarrow>
      (returncode = 0 \<longrightarrow> runCmd run cmd st = (Inr out, st')) \<and>
      (returncode \<noteq> 0 \<longrightarrow>
         runCmd run cmd st = (Inl (CalledProcessError returncode (str_join '' '' cmd) out), st')) \<and>
      ((\<exists>e. fst (runCmd run cmd st) = Inl e) \<longleftrightarrow> returncode \<noteq> 0)"
    by (auto simp: runCmd_def)
  have 2: "(\<not> inlineSignature p \<or> forceManual)
      \<and> writePayloadAndKey env (privateKey self) (normalizedURI uri) data (os p) = (d, st3)
      \<and> popen env [''openssl'', ''dgst'', ''-sha256'', ''-sign'', path_join d ''pkey'',
                    path_join d ''payload''] st3 = ((rc, out1, err1), st4)
      \<and> rc \<noteq> 0 \<longrightarrow>
      fst (generateSignature env self uri data forceManual p) =
        Inl (CalledProcessError rc
              (''openssl dgst -sha256 -sign '' @ path_join d ''pkey'' @ '' '' @ path_join d ''payload'')
              out1)"
  proof (intro impI, elim conjE)
    assume m: "\<not> inlineSignature p \<or> forceManual"
      and w: "writePayloadAndKey env (privateKey self) (normalizedURI uri) data (os p) = (d, st3)"
      and c: "popen env [''openssl'', ''dgst'', ''-sha256'', ''-sign'', path_join d ''pkey'',
                    path_join d ''payload''] st3 = ((rc, out1, err1), st4)"
      and r: "rc \<noteq> 0"
    show "fst (generateSignature env self uri data forceManual p) =
        Inl (CalledProcessError rc
              (''openssl dgst -sha256 -sign '' @ path_join d ''pkey'' @ '' '' @ path_join d ''payload'')
              out1)"
      using generateSignature_manual [OF m, of env self uri data]
        manualSignature_first_command_fails [OF w c r]
      by simp
  qed
  show ?thesis using 1 2 by blast
qed

theorem runCmd_result_witness:
  "runCmd (\<lambda>cmd st. ((0, ''sig'', ''warn''), st)) [''openssl'', ''dgst''] example_os
     = (Inr ''sig'', example_os) \<and>
   runCmd (\<lambda>cmd st. ((2, ''partial'', ''boom''), st)) [''openssl'', ''dgst''] example_os
     = (Inl (CalledProcessError 2 ''openssl dgst'' ''partial''), example_os) \<and>
   fst (generateSignature example_env (example_cert\<lparr>privateKey := []\<rparr>) ''/api/node?'' None False
          (module_init False example_os))
     = Inl (CalledProcessError 1 ''openssl dgst -sha256 -sign /tmp/t/pkey /tmp/t/payload'' [])"
proof -
  let ?st3 = "\<lparr>files = [(''/tmp/t/payload'', ''GET/api/node''), (''/tmp/t/pkey'', [])],
               dirs = [''/tmp/t'', ''/tmp'']\<rparr>"
  have m: "\<not> inlineSignature (module_init False example_os)"
      "os (module_init False example_os) = example_os"
      "privateKey (example_cert\<lparr>privateKey := []\<rparr>) = []"
    by (simp_all add: module_init_def)
  have w: "writePayloadAndKey example_env [] (normalizedURI ''/api/node?'') None example_os
             = (''/tmp/t'', ?st3)"
    by code_simp
  have c: "popen example_env [''openssl'', ''dgst'', ''-sha256'', ''-sign'', path_join ''/tmp/t'' ''pkey'',
                    path_join ''/tmp/t'' ''payload''] ?st3 = ((1, [], ''unable to load key''), ?st3)"
    by code_simp
  have j: "path_join ''/tmp/t'' ''pkey'' = ''/tmp/t/pkey''" "path_join ''/tmp/t'' ''payload'' = ''/tmp/t/payload''"
    by code_simp+
  have a: "runCmd (\<lambda>cmd st. ((0, ''sig'', ''warn''), st)) [''openssl'', ''dgst''] example_os
     = (Inr ''sig'', example_os)"
    using runCmd_result [where run = "\<lambda>cmd st. ((0, ''sig'', ''warn''), st)"
        and cmd = "[''openssl'', ''dgst'']" and st = example_os and returncode = 0
        and out = "''sig''" and err = "''warn''" and st' = example_os, THEN conjunct1]
    by simp
  have b: "runCmd (\<lambda>cmd st. ((2, ''partial'', ''boom''), st)) [''openssl'', ''dgst''] example_os
     = (Inl (CalledProcessError 2 ''openssl dgst'' ''partial''), example_os)"
    using runCmd_result [where run = "\<lambda>cmd st. ((2, ''partial'', ''boom''), st)"
        and cmd = "[''openssl'', ''dgst'']" and st = example_os and returncode = 2
        and out = "''partial''" and err = "''boom''" and st' = example_os, THEN conjunct1]
    by simp
  have c': "fst (generateSignature example_env (example_cert\<lparr>privateKey := []\<rparr>) ''/api/node?'' None False
          (module_init False example_os))
     = Inl (CalledProcessError 1 ''openssl dgst -sha256 -sign /tmp/t/pkey /tmp/t/payload'' [])"
    using m w c
      runCmd_result [where p = "module_init False example_os" and forceManual = False
        and env = example_env and self = "example_cert\<lparr>privateKey := []\<rparr>"
        and uri = "''/api/node?''" and data = None and d = "''/tmp/t''" and ?st3.0 = ?st3
        and rc = 1 and ?out1.0 = "[]" and ?err1.0 = "''unable to load key''" and ?st4.0 = ?st3,
        THEN conjunct2]
    by (simp add: j)
  show ?thesis using a b c' by simp
qed

section \<open>Properties of the login response parser\<close>

lemma dict_get_not_LoginError: "dict_get v k \<noteq> Inl (LoginError c r)"
  by (cases v) (auto split: option.splits)

lemma py_index0_not_LoginError: "py_index0 v \<noteq> Inl (LoginError c r)"
  by (cases v rule: py_index0.cases) auto

lemma py_in_not_LoginError: "py_in k v \<noteq> Inl (LoginError c r)"
  by (cases v) auto

lemma py_getitem_not_LoginError: "py_getitem v k \<noteq> Inl (LoginError c r)"
  by (cases v) (auto split: option.splits)

lemma py_getitem2_not_LoginError: "py_getitem2 v k1 k2 \<noteq> Inl (LoginError c r)"
  by (auto simp: py_getitem2_def py_getitem_not_LoginError split: sum.splits)

lemma py_getitem3_not_LoginError: "py_getitem3 v k1 k2 k3 \<noteq> Inl (LoginError c r)"
  by (auto simp: py_getitem3_def py_getitem2_not_LoginError py_getitem_not_LoginError split: sum.splits)

lemma int_of_str_not_LoginError: "int_of_str s \<noteq> Inl (LoginError c r)"
  by (auto simp: int_of_str_def Let_def split: option.splits)

lemma py_int_not_LoginError: "py_int v \<noteq> Inl (LoginError c r)"
  by (cases v rule: py_int.cases) (auto simp: int_of_str_not_LoginError)

lemmas not_LoginError =
  dict_get_not_LoginError py_index0_not_LoginError py_in_not_LoginError
  py_getitem_not_LoginError py_getitem2_not_LoginError py_getitem3_not_LoginError
  py_int_not_LoginError

lemma py_getitem3_split:
  "py_getitem3 v k1 k2 k3 =
     (case py_getitem v k1 of Inl e \<Rightarrow> Inl e | Inr d \<Rightarrow> py_getitem2 d k2 k3)"
  by (simp add: py_getitem3_def py_getitem2_def split: sum.splits)

lemma raiseLoginError_iff:
  "raiseLoginError firstRecord = LoginError code reason \<longleftrightarrow>
     py_getitem3 firstRecord ''error'' ''attributes'' ''text'' = Inr reason \<and>
     py_getitem3 firstRecord ''error'' ''attributes'' ''code'' = Inr code"
  by (auto simp: raiseLoginError_def py_getitem3_split not_LoginError split: sum.splits)

lemma storeLogin_not_LoginError:
  "fst (storeLogin firstRecord now self) \<noteq> Some (LoginError code reason)"
  by (auto simp: storeLogin_def Let_def not_LoginError split: sum.splits)

lemma LoginError_raised_iff:
  "fst (parseResponse rsp now self) = Some (LoginError code reason) \<longleftrightarrow>
      (\<exists>body data. rsp_json rsp = Some body \<and> dict_get body ''imdata'' = Inr data \<and>
         (\<not> truthy data \<and> code = PInt 0 \<and> reason = PStr (''Bad Response: '' @ rsp_text rsp)
          \<or> truthy data \<and> (\<exists>firstRecord. py_index0 data = Inr firstRecord \<and>
              (py_in ''error'' firstRecord = Inr True \<and>
                 py_getitem3 firstRecord ''error'' ''attributes'' ''text'' = Inr reason \<and>
                 py_getitem3 firstRecord ''error'' ''attributes'' ''code'' = Inr code
               \<or> py_in ''error'' firstRecord = Inr False \<and>
                 py_in ''aaaLogin'' firstRecord = Inr False \<and>
                 code = PInt 0 \<and> reason = PStr (''Bad Response: '' @ rsp_text rsp)))))"
  by (auto simp: parseResponse_def not_LoginError raiseLoginError_iff storeLogin_not_LoginError
      split: option.splits sum.splits bool.splits)

lemma LoginError_leaves_session:
  "fst (parseResponse rsp now self) = Some (LoginError code reason) \<Longrightarrow>
   snd (parseResponse rsp now self) = self"
  using storeLogin_not_LoginError [of _ now self code reason]
  by (auto simp: parseResponse_def not_LoginError
      split: option.splits sum.splits bool.splits if_splits)

lemma math_trunc_floor: "0 \<le> x \<Longrightarrow> math_trunc x = \<lfloor>x\<rfloor>"
  by (simp add: math_trunc_def)

lemma storeLogin_success:
  "fst (storeLogin firstRecord now self) = None \<Longrightarrow>
   \<exists>tok rts ver n.
     py_getitem3 firstRecord ''aaaLogin'' ''attributes'' ''token'' = Inr tok \<and>
     py_getitem3 firstRecord ''aaaLogin'' ''attributes'' ''refreshTimeoutSeconds'' = Inr rts \<and>
     py_getitem3 firstRecord ''aaaLogin'' ''attributes'' ''version'' = Inr ver \<and>
     py_int rts = Inr n \<and>
     snd (storeLogin firstRecord now self) =
       self\<lparr>cookie := tok, version := ver, refreshTime := PInt (n + math_trunc now),
            refreshTimeoutSeconds := PInt n\<rparr>"
  by (auto simp: storeLogin_def Let_def split: sum.splits)

lemma parseResponse_success:
  "fst (parseResponse rsp now self) = None \<Longrightarrow>
   \<exists>body data firstRecord.
     rsp_json rsp = Some body \<and> dict_get body ''imdata'' = Inr data \<and> truthy data \<and>
     py_index0 data = Inr firstRecord \<and>
     py_in ''error'' firstRecord = Inr False \<and> py_in ''aaaLogin'' firstRecord = Inr True \<and>
     parseResponse rsp now self = storeLogin firstRecord now self"
  by (auto simp: parseResponse_def split: option.splits sum.splits bool.splits if_splits)

lemma int_of_str_600: "int_of_str ''600'' = Inr 600"
  by code_simp

lemma floor_example: "\<lfloor>(6800000003 / 4 :: rat)\<rfloor> = 1700000000"
  by (rule floor_unique) simp_all

lemma dict_get_raises: "dict_get v k = Inl e \<Longrightarrow> e = AttributeError"
  by (cases v) (auto split: option.splits)

lemma py_index0_raises:
  "py_index0 v = Inl e \<Longrightarrow> truthy v \<Longrightarrow> e = TypeError \<or> e = KeyError (PInt 0)"
  by (cases v rule: py_index0.cases) auto

lemma py_in_raises: "py_in k v = Inl e \<Longrightarrow> e = TypeError"
  by (cases v) auto

lemma py_getitem_raises: "py_getitem v k = Inl e \<Longrightarrow> e = TypeError \<or> e = KeyError (PStr k)"
  by (cases v) (auto split: option.splits)

lemma py_getitem2_raises:
  "py_getitem2 v k1 k2 = Inl e \<Longrightarrow> e = TypeError \<or> (\<exists>k. e = KeyError k)"
  by (auto simp: py_getitem2_def split: sum.splits dest: py_getitem_raises)

lemma py_getitem3_raises:
  "py_getitem3 v k1 k2 k3 = Inl e \<Longrightarrow> e = TypeError \<or> (\<exists>k. e = KeyError k)"
  by (auto simp: py_getitem3_def split: sum.splits dest: py_getitem_raises py_getitem2_raises)

lemma py_int_raises:
  "py_int v = Inl e \<Longrightarrow> e = TypeError \<or> e = ValueError \<or> e = OverflowError"
  by (cases v rule: py_int.cases) (auto simp: int_of_str_def Let_def split: option.splits)

lemma raiseLoginError_raises:
  "raiseLoginError firstRecord = e \<Longrightarrow>
   (\<exists>c r. e = LoginError c r) \<or> e = TypeError \<or> (\<exists>k. e = KeyError k)"
  by (auto simp: raiseLoginError_def split: sum.splits dest: py_getitem_raises py_getitem2_raises)

lemma storeLogin_raises:
  "fst (storeLogin firstRecord now self) = Some e \<Longrightarrow>
   e = TypeError \<or> e = ValueError \<or> e = OverflowError \<or> (\<exists>k. e = KeyError k)"
  by (auto simp: storeLogin_def Let_def split: sum.splits dest: py_getitem3_raises py_int_raises)

lemma storeLogin_frame:
  "fst (storeLogin firstRecord now self) = Some e \<Longrightarrow>
   snd (storeLogin firstRecord now self) = self \<or>
   (\<exists>tok rts ver e'.
      py_getitem3 firstRecord ''aaaLogin'' ''attributes'' ''token'' = Inr tok \<and>
      py_getitem3 firstRecord ''aaaLogin'' ''attributes'' ''refreshTimeoutSeconds'' = Inr rts \<and>
      py_getitem3 firstRecord ''aaaLogin'' ''attributes'' ''version'' = Inr ver \<and>
      py_int rts = Inl e')"
  by (auto simp: storeLogin_def Let_def split: sum.splits)

lemma parseResponse_raises:
  "fst (parseResponse rsp now self) = Some e \<Longrightarrow>
   (\<exists>c r. e = LoginError c r) \<or> (\<exists>k. e = KeyError k) \<or>
   e = ValueError \<or> e = AttributeError \<or> e = TypeError \<or> e = OverflowError"
proof -
  assume f: "fst (parseResponse rsp now self) = Some e"
  consider (direct) "e = ValueError \<or> (\<exists>c r. e = LoginError c r)"
    | (get) body where "dict_get body ''imdata'' = Inl e"
    | (idx) data where "truthy data" "py_index0 data = Inl e"
    | (mem) k fr where "py_in k fr = Inl e"
    | (err) fr where "raiseLoginError fr = e"
    | (store) fr where "fst (storeLogin fr now self) = Some e"
    using f
    by (auto simp: parseResponse_def split: option.splits sum.splits bool.splits if_splits)
  then show ?thesis
  proof cases
    case direct
    then show ?thesis by blast
  next
    case get
    then show ?thesis by (auto dest: dict_get_raises)
  next
    case idx
    then show ?thesis by (auto dest: py_index0_raises)
  next
    case mem
    then show ?thesis by (auto dest: py_in_raises)
  next
    case err
    then show ?thesis using raiseLoginError_raises [of fr e] by blast
  next
    case store
    then show ?thesis using storeLogin_raises [of fr now self e] by blast
  qed
qed

lemma parseResponse_same_or_store:
  "snd (parseResponse rsp now self) = self \<or>
   (\<exists>body data fr. rsp_json rsp = Some body \<and> dict_get body ''imdata'' = Inr data \<and>
      truthy data \<and> py_index0 data = Inr fr \<and> py_in ''error'' fr = Inr False \<and>
      py_in ''aaaLogin'' fr = Inr True \<and> parseResponse rsp now self = storeLogin fr now self)"
  by (simp add: parseResponse_def split: option.split sum.split bool.split)

lemma parseResponse_frame:
  "fst (parseResponse rsp now self) = Some e \<Longrightarrow>
   snd (parseResponse rsp now self) = self \<or>
   (\<exists>body data firstRecord tok rts ver e'.
      rsp_json rsp = Some body \<and> dict_get body ''imdata'' = Inr data \<and> truthy data \<and>
      py_index0 data = Inr firstRecord \<and>
      py_in ''error'' firstRecord = Inr False \<and> py_in ''aaaLogin'' firstRecord = Inr True \<and>
      py_getitem3 firstRecord ''aaaLogin'' ''attributes'' ''token'' = Inr tok \<and>
      py_getitem3 firstRecord ''aaaLogin'' ''attributes'' ''refreshTimeoutSeconds'' = Inr rts \<and>
      py_getitem3 firstRecord ''aaaLogin'' ''attributes'' ''version'' = Inr ver \<and>
      py_int rts = Inl e')"
proof -
  assume f: "fst (parseResponse rsp now self) = Some e"
  from parseResponse_same_or_store [of rsp now self]
  consider (same) "snd (parseResponse rsp now self) = self"
    | (store) body data fr where "rsp_json rsp = Some body" "dict_get body ''imdata'' = Inr data"
        "truthy data" "py_index0 data = Inr fr" "py_in ''error'' fr = Inr False"
        "py_in ''aaaLogin'' fr = Inr True" "parseResponse rsp now self = storeLogin fr now self"
    by blast
  then show ?thesis
  proof cases
    case same
    then show ?thesis by simp
  next
    case store
    from f store(7) have "fst (storeLogin fr now self) = Some e" by simp
    from storeLogin_frame [OF this] store show ?thesis by auto
  qed
qed

text \<open>
  Claim C6, as the code has it.  \<^verbatim>\<open>_parseResponse\<close> raises \<^verbatim>\<open>LoginError\<close> in exactly
  three cases: the decoded body is a mapping whose \<^verbatim>\<open>imdata\<close> is missing or falsy, with
  code 0 and the reason \<^verbatim>\<open>Bad Response:\<close> followed by the raw body; the first record has
  an \<^verbatim>\<open>error\<close> entry whose attributes hold \<^verbatim>\<open>text\<close> and \<^verbatim>\<open>code\<close>, with these two
  values; the first record has neither an \<^verbatim>\<open>error\<close> nor an \<^verbatim>\<open>aaaLogin\<close> entry, with
  code 0 and the same reason as in the first case.  A call that raises \<^verbatim>\<open>LoginError\<close>
  leaves the session as it was, and so does every other failing call, whatever it
  raises, but for one that is set aside: the call on a login record with its three
  attributes whose refresh timeout \<^verbatim>\<open>int\<close> does not convert (line 279 then fails after
  lines 277 and 278).  What a failing call raises is a \<^verbatim>\<open>LoginError\<close>, a \<^verbatim>\<open>KeyError\<close>,
  a \<^verbatim>\<open>ValueError\<close>, an \<^verbatim>\<open>AttributeError\<close>, a \<^verbatim>\<open>TypeError\<close> or an
  \<^verbatim>\<open>OverflowError\<close>.
\<close>

theorem parseResponse_LoginError:
  "(fst (parseResponse rsp now self) = Some (LoginError code reason) \<longleftrightarrow>
      (\<exists>body data. rsp_json rsp = Some body \<and> dict_get body ''imdata'' = Inr data \<and>
         (\<not> truthy data \<and> code = PInt 0 \<and> reason = PStr (''Bad Response: '' @ rsp_text rsp)
          \<or> truthy data \<and> (\<exists>firstRecord. py_index0 data = Inr firstRecord \<and>
              (py_in ''error'' firstRecord = Inr True \<and>
                 py_getitem3 firstRecord ''error'' ''attributes'' ''text'' = Inr reason \<and>
                 py_getitem3 firstRecord ''error'' ''attributes'' ''code'' = Inr code
               \<or> py_in ''error'' firstRecord = Inr False \<and>
                 py_in ''aaaLogin'' firstRecord = Inr False \<and>
                 code = PInt 0 \<and> reason = PStr (''Bad Response: '' @ rsp_text rsp)))))) \<and>
   (fst (parseResponse rsp now self) = Some (LoginError code reason) \<longrightarrow>
      snd (parseResponse rsp now self) = self) \<and>
   (fst (parseResponse rsp now self) = Some e \<and>
    \<not> (\<exists>body data firstRecord tok rts ver e'.
          rsp_json rsp = Some body \<and> dict_get body ''imdata'' = Inr data \<and> truthy data \<and>
          py_index0 data = Inr firstRecord \<and>
          py_in ''error'' firstRecord = Inr False \<and> py_in ''aaaLogin'' firstRecord = Inr True \<and>
          py_getitem3 firstRecord ''aaaLogin'' ''attributes'' ''token'' = Inr tok \<and>
          py_getitem3 firstRecord ''aaaLogin'' ''attributes'' ''refreshTimeoutSeconds'' = Inr rts \<and>
          py_getitem3 firstRecord ''aaaLogin'' ''attributes'' ''version'' = Inr ver \<and>
          py_int rts = Inl e') \<longrightarrow>
      snd (parseResponse rsp now self) = self) \<and>
   (fst (parseResponse rsp now self) = Some e \<longrightarrow>
      (\<exists>c r. e = LoginError c r) \<or> (\<exists>k. e = KeyError k) \<or>
      e = ValueError \<or> e = AttributeError \<or> e = TypeError \<or> e = OverflowError)"
  using LoginError_raised_iff [of rsp now self code reason]
    LoginError_leaves_session [of rsp now self code reason]
    parseResponse_frame [of rsp now self e]
    parseResponse_raises [of rsp now self e]
  by blast

theorem parseResponse_LoginError_witness:
  \<open>fst (parseResponse
          \<lparr>rsp_text = ''{"imdata":[{"error":{"attributes":{"text":"bad creds","code":"401"}}}]}'',
           rsp_json = Some (PDict [(''imdata'', PList [PDict [(''error'',
             PDict [(''attributes'', PDict [(''text'', PStr ''bad creds''),
               (''code'', PStr ''401'')])])]])])\<rparr>
          1700000000 example_login)
     = Some (LoginError (PStr ''401'') (PStr ''bad creds'')) \<and>
   snd (parseResponse
          \<lparr>rsp_text = ''{"imdata":[{"error":{"attributes":{"text":"bad creds","code":"401"}}}]}'',
           rsp_json = Some (PDict [(''imdata'', PList [PDict [(''error'',
             PDict [(''attributes'', PDict [(''text'', PStr ''bad creds''),
               (''code'', PStr ''401'')])])]])])\<rparr>
          1700000000 example_login)
     = example_login \<and>
   fst (parseResponse
          \<lparr>rsp_text = ''{"imdata":[{"error":{}}]}'',
           rsp_json = Some (PDict [(''imdata'', PList [PDict [(''error'', PDict [])]])])\<rparr>
          1700000000 example_login)
     = Some (KeyError (PStr ''attributes'')) \<and>
   snd (parseResponse
          \<lparr>rsp_text = ''{"imdata":[{"error":{}}]}'',
           rsp_json = Some (PDict [(''imdata'', PList [PDict [(''error'', PDict [])]])])\<rparr>
          1700000000 example_login)
     = example_login\<close>
proof -
  let ?rsp = \<open>\<lparr>rsp_text = ''{"imdata":[{"error":{"attributes":{"text":"bad creds","code":"401"}}}]}'',
           rsp_json = Some (PDict [(''imdata'', PList [PDict [(''error'',
             PDict [(''attributes'', PDict [(''text'', PStr ''bad creds''),
               (''code'', PStr ''401'')])])]])])\<rparr>\<close>
  let ?bad = \<open>\<lparr>rsp_text = ''{"imdata":[{"error":{}}]}'',
           rsp_json = Some (PDict [(''imdata'', PList [PDict [(''error'', PDict [])]])])\<rparr>\<close>
  have f: "fst (parseResponse ?rsp 1700000000 example_login)
             = Some (LoginError (PStr ''401'') (PStr ''bad creds''))"
    by (simp add: parseResponse_def raiseLoginError_def py_getitem2_def)
  have g: "fst (parseResponse ?bad 1700000000 example_login) = Some (KeyError (PStr ''attributes''))"
    by (simp add: parseResponse_def raiseLoginError_def py_getitem2_def)
  have n: "\<not> (\<exists>body data firstRecord tok rts ver e'.
          rsp_json ?bad = Some body \<and> dict_get body ''imdata'' = Inr data \<and> truthy data \<and>
          py_index0 data = Inr firstRecord \<and>
          py_in ''error'' firstRecord = Inr False \<and> py_in ''aaaLogin'' firstRecord = Inr True \<and>
          py_getitem3 firstRecord ''aaaLogin'' ''attributes'' ''token'' = Inr tok \<and>
          py_getitem3 firstRecord ''aaaLogin'' ''attributes'' ''refreshTimeoutSeconds'' = Inr rts \<and>
          py_getitem3 firstRecord ''aaaLogin'' ''attributes'' ''version'' = Inr ver \<and>
          py_int rts = Inl e')"
    by auto
  have s1: "snd (parseResponse ?rsp 1700000000 example_login) = example_login"
    using f parseResponse_LoginError [where rsp = ?rsp and now = 1700000000 and self = example_login
        and code = "PStr ''401''" and reason = "PStr ''bad creds''",
        THEN conjunct2, THEN conjunct1]
    by simp
  have s2: "snd (parseResponse ?bad 1700000000 example_login) = example_login"
    using g n parseResponse_LoginError [where rsp = ?bad and now = 1700000000 and self = example_login
        and e = "KeyError (PStr ''attributes'')",
        THEN conjunct2, THEN conjunct2, THEN conjunct1]
    by blast
  show ?thesis using f g s1 s2 by simp
qed

text \<open>
  C6 as the specification words it fails in three places.  The reason of the synthetic
  error begins with \<^verbatim>\<open>Bad Response:\<close>, in capitals.  An \<^verbatim>\<open>error\<close> entry without
  attributes ends in a \<^verbatim>\<open>KeyError\<close>, not in a \<^verbatim>\<open>LoginError\<close>.  And a login record whose
  lifetime is not a number makes \<^verbatim>\<open>int\<close> fail after the cookie and the version have
  been assigned.
\<close>

theorem parseResponse_LoginError_counterexample:
  \<open>fst (parseResponse \<lparr>rsp_text = ''{}'', rsp_json = Some (PDict [])\<rparr> 1700000000 example_login)
     = Some (LoginError (PInt 0) (PStr ''Bad Response: {}'')) \<and>
   fst (parseResponse \<lparr>rsp_text = ''{}'', rsp_json = Some (PDict [])\<rparr> 1700000000 example_login)
     \<noteq> Some (LoginError (PInt 0) (PStr ''bad response: {}'')) \<and>
   py_in ''error'' (PDict [(''error'', PDict [])]) = Inr True \<and>
   fst (parseResponse
          \<lparr>rsp_text = ''{"imdata":[{"error":{}}]}'',
           rsp_json = Some (PDict [(''imdata'', PList [PDict [(''error'', PDict [])]])])\<rparr>
          1700000000 example_login)
     = Some (KeyError (PStr ''attributes'')) \<and>
   parseResponse
     \<lparr>rsp_text = ''{"imdata":[{"aaaLogin":{"attributes":{"token":"abc","refreshTimeoutSeconds":"xyz","version":"5.0"}}}]}'',
      rsp_json = Some (PDict [(''imdata'', PList [PDict [(''aaaLogin'',
        PDict [(''attributes'', PDict [(''token'', PStr ''abc''),
          (''refreshTimeoutSeconds'', PStr ''xyz''), (''version'', PStr ''5.0'')])])]])])\<rparr>
     1700000000 example_login
     = (Some ValueError, example_login\<lparr>cookie := PStr ''abc'', version := PStr ''5.0''\<rparr>) \<and>
   example_login\<lparr>cookie := PStr ''abc'', version := PStr ''5.0''\<rparr> \<noteq> example_login\<close>
  by code_simp

text \<open>
  Claim C7.  When \<^verbatim>\<open>_parseResponse\<close> returns, the first record is a login record, and
  the call has set the cookie to its token, the version to its version, the lifetime to
  \<^verbatim>\<open>int\<close> of its refresh timeout, and the expiry to the lifetime plus the truncated
  clock; \<^verbatim>\<open>math.trunc\<close> is the floor for a clock reading at or after the epoch.  For
  the envelope of the scenario the session ends with the token \<^verbatim>\<open>abc\<close>, the lifetime
  600 and the version \<^verbatim>\<open>5.0\<close>.
\<close>

theorem parseResponse_sets_token_fields:
  "(fst (parseResponse rsp now self) = None \<and> 0 \<le> now \<longrightarrow>
      (\<exists>body data firstRecord tok rts ver n.
         rsp_json rsp = Some body \<and> dict_get body ''imdata'' = Inr data \<and>
         py_index0 data = Inr firstRecord \<and>
         py_getitem3 firstRecord ''aaaLogin'' ''attributes'' ''token'' = Inr tok \<and>
         py_getitem3 firstRecord ''aaaLogin'' ''attributes'' ''refreshTimeoutSeconds'' = Inr rts \<and>
         py_getitem3 firstRecord ''aaaLogin'' ''attributes'' ''version'' = Inr ver \<and>
         py_int rts = Inr n \<and>
         snd (parseResponse rsp now self) =
           self\<lparr>cookie := tok, version := ver, refreshTime := PInt (\<lfloor>now\<rfloor> + n),
                refreshTimeoutSeconds := PInt n\<rparr>)) \<and>
   (0 \<le> now \<longrightarrow>
      parseResponse
        \<lparr>rsp_text = raw,
         rsp_json = Some (PDict [(''imdata'', PList [PDict [(''aaaLogin'',
           PDict [(''attributes'', PDict [(''token'', PStr ''abc''),
             (''refreshTimeoutSeconds'', PStr ''600''), (''version'', PStr ''5.0'')])])]])])\<rparr>
        now self =
      (None, self\<lparr>cookie := PStr ''abc'', version := PStr ''5.0'',
                  refreshTime := PInt (\<lfloor>now\<rfloor> + 600), refreshTimeoutSeconds := PInt 600\<rparr>))"
proof -
  have 1: "fst (parseResponse rsp now self) = None \<and> 0 \<le> now \<longrightarrow>
      (\<exists>body data firstRecord tok rts ver n.
         rsp_json rsp = Some body \<and> dict_get body ''imdata'' = Inr data \<and>
         py_index0 data = Inr firstRecord \<and>
         py_getitem3 firstRecord ''aaaLogin'' ''attributes'' ''token'' = Inr tok \<and>
         py_getitem3 firstRecord ''aaaLogin'' ''attributes'' ''refreshTimeoutSeconds'' = Inr rts \<and>
         py_getitem3 firstRecord ''aaaLogin'' ''attributes'' ''version'' = Inr ver \<and>
         py_int rts = Inr n \<and>
         snd (parseResponse rsp now self) =
           self\<lparr>cookie := tok, version := ver, refreshTime := PInt (\<lfloor>now\<rfloor> + n),
                refreshTimeoutSeconds := PInt n\<rparr>)"
  proof (intro impI, elim conjE)
    assume ok: "fst (parseResponse rsp now self) = None" and t: "0 \<le> now"
    from parseResponse_success [OF ok] obtain body data firstRecord where
      e: "rsp_json rsp = Some body" "dict_get body ''imdata'' = Inr data"
         "py_index0 data = Inr firstRecord"
         "parseResponse rsp now self = storeLogin firstRecord now self"
      by blast
    from ok e(4) have "fst (storeLogin firstRecord now self) = None" by simp
    from storeLogin_success [OF this] obtain tok rts ver n where
      s: "py_getitem3 firstRecord ''aaaLogin'' ''attributes'' ''token'' = Inr tok"
         "py_getitem3 firstRecord ''aaaLogin'' ''attributes'' ''refreshTimeoutSeconds'' = Inr rts"
         "py_getitem3 firstRecord ''aaaLogin'' ''attributes'' ''version'' = Inr ver"
         "py_int rts = Inr n"
         "snd (storeLogin firstRecord now self) =
            self\<lparr>cookie := tok, version := ver, refreshTime := PInt (n + math_trunc now),
                 refreshTimeoutSeconds := PInt n\<rparr>"
      by blast
    have "snd (parseResponse rsp now self) =
           self\<lparr>cookie := tok, version := ver, refreshTime := PInt (\<lfloor>now\<rfloor> + n),
                refreshTimeoutSeconds := PInt n\<rparr>"
      using e(4) s(5) t by (simp add: math_trunc_floor add.commute)
    with e s show "\<exists>body data firstRecord tok rts ver n.
         rsp_json rsp = Some body \<and> dict_get body ''imdata'' = Inr data \<and>
         py_index0 data = Inr firstRecord \<and>
         py_getitem3 firstRecord ''aaaLogin'' ''attributes'' ''token'' = Inr tok \<and>
         py_getitem3 firstRecord ''aaaLogin'' ''attributes'' ''refreshTimeoutSeconds'' = Inr rts \<and>
         py_getitem3 firstRecord ''aaaLogin'' ''attributes'' ''version'' = Inr ver \<and>
         py_int rts = Inr n \<and>
         snd (parseResponse rsp now self) =
           self\<lparr>cookie := tok, version := ver, refreshTime := PInt (\<lfloor>now\<rfloor> + n),
                refreshTimeoutSeconds := PInt n\<rparr>"
      by blast
  qed
  have 2: "0 \<le> now \<longrightarrow>
      parseResponse
        \<lparr>rsp_text = raw,
         rsp_json = Some (PDict [(''imdata'', PList [PDict [(''aaaLogin'',
           PDict [(''attributes'', PDict [(''token'', PStr ''abc''),
             (''refreshTimeoutSeconds'', PStr ''600''), (''version'', PStr ''5.0'')])])]])])\<rparr>
        now self =
      (None, self\<lparr>cookie := PStr ''abc'', version := PStr ''5.0'',
                  refreshTime := PInt (\<lfloor>now\<rfloor> + 600), refreshTimeoutSeconds := PInt 600\<rparr>)"
    by (simp add: parseResponse_def storeLogin_def py_getitem3_def py_getitem2_def Let_def
        int_of_str_600 math_trunc_floor)
  show ?thesis using 1 2 by blast
qed

theorem parseResponse_sets_token_fields_witness:
  \<open>(0::rat) \<le> 6800000003 / 4 \<and>
   parseResponse
     \<lparr>rsp_text = ''{"imdata":[{"aaaLogin":{"attributes":{"token":"abc","refreshTimeoutSeconds":"600","version":"5.0"}}}]}'',
      rsp_json = Some (PDict [(''imdata'', PList [PDict [(''aaaLogin'',
        PDict [(''attributes'', PDict [(''token'', PStr ''abc''),
          (''refreshTimeoutSeconds'', PStr ''600''), (''version'', PStr ''5.0'')])])]])])\<rparr>
     (6800000003 / 4) example_login
     = (None, example_login\<lparr>cookie := PStr ''abc'', version := PStr ''5.0'',
          refreshTime := PInt 1700000600, refreshTimeoutSeconds := PInt 600\<rparr>)\<close>
  using parseResponse_sets_token_fields [where now = "6800000003 / 4" and self = example_login
      and raw = \<open>''{"imdata":[{"aaaLogin":{"attributes":{"token":"abc","refreshTimeoutSeconds":"600","version":"5.0"}}}]}''\<close>,
      THEN conjunct2]
  by (simp add: floor_example)

end
